theory Spec2Isabelle
  imports Complex_Main
begin

section \<open>The geolocation utilities of the tracker front end (src/api.js)\<close>

text \<open>
  JavaScript numbers are modelled as the reals they denote (\<^typ>\<open>real\<close>): the
  comparisons the code makes on finite numbers are the comparisons of these reals. The
  additions and divisions of the average round, and are a parameter of the model; the
  value NaN and the infinities are outside it. A field of the platform that is
  \<^verbatim>\<open>null\<close> or a number is a \<^typ>\<open>real option\<close>.
\<close>

subsection \<open>Platform data\<close>

text \<open>\<^verbatim>\<open>GeolocationCoordinates\<close>, read as \<^verbatim>\<open>position.coords\<close>.\<close>

record coords =
  latitude :: real
  longitude :: real
  accuracy :: real
  altitude :: "real option"
  altitudeAccuracy :: "real option"
  heading :: "real option"
  speed :: "real option"

text \<open>\<^verbatim>\<open>GeolocationPosition\<close>: every object with a \<^verbatim>\<open>coords\<close> and a
  \<^verbatim>\<open>timestamp\<close> field is an extension of this record.\<close>

record position =
  coords :: coords
  timestamp :: int

text \<open>\<^verbatim>\<open>window.location\<close>, the two fields the code reads.\<close>

record location =
  protocol :: string
  hostname :: string

subsection \<open>analyzeLocationAccuracy\<close>

record analysis =
  accuracy :: real
  accuracyLevel :: string
  recommendations :: "string list"
  warnings :: "string list"
  info :: "string list"

text \<open>The object literal that opens the function: the tier by a chain of conditionals.\<close>

definition initialAnalysis :: "real \<Rightarrow> analysis" where
  "initialAnalysis a =
     \<lparr> accuracy = a,
       accuracyLevel =
         (if a < 5 then ''Excellent''
          else if a < 10 then ''Very High''
          else if a < 20 then ''High''
          else if a < 50 then ''Medium''
          else if a < 100 then ''Low''
          else ''Very Low''),
       recommendations = [],
       warnings = [],
       info = [] \<rparr>"

definition pushWarning :: "string \<Rightarrow> analysis \<Rightarrow> analysis" where
  "pushWarning s an = an\<lparr>warnings := warnings an @ [s]\<rparr>"

definition pushRecommendation :: "string \<Rightarrow> analysis \<Rightarrow> analysis" where
  "pushRecommendation s an = an\<lparr>recommendations := recommendations an @ [s]\<rparr>"

definition pushInfo :: "string \<Rightarrow> analysis \<Rightarrow> analysis" where
  "pushInfo s an = an\<lparr>info := info an @ [s]\<rparr>"

text \<open>The five blocks that follow, each a function on the analysis built so far.\<close>

definition accuracyAnalysis :: "real \<Rightarrow> analysis \<Rightarrow> analysis" where
  "accuracyAnalysis a an =
     (if a > 100 then
        pushRecommendation ''Try moving outdoors with clear sky view for better GPS accuracy.''
          (pushWarning ''Location accuracy is very poor (>100m). This might be network-based location.'' an)
      else if a > 50 then
        pushRecommendation ''Move to an open area or near a window for better GPS reception.''
          (pushWarning ''Location accuracy is low (50-100m). GPS signal might be weak.'' an)
      else if a > 20 then
        pushRecommendation ''Wait a few moments for GPS to settle, or move to a more open area.''
          (pushInfo ''Location accuracy is moderate (20-50m). GPS is working but could be better.'' an)
      else if a > 10 then
        pushInfo ''Location accuracy is good (10-20m). GPS is working well.'' an
      else
        pushInfo ''Location accuracy is excellent (<10m). GPS is working optimally.'' an)"

definition altitudeAnalysis :: "real option \<Rightarrow> real option \<Rightarrow> analysis \<Rightarrow> analysis" where
  "altitudeAnalysis alt altAcc an =
     (case (alt, altAcc) of
        (Some _, Some aa) \<Rightarrow>
          (if aa > 50 then pushWarning ''Altitude accuracy is poor. This is normal for GPS.'' an
           else an)
      | _ \<Rightarrow> an)"

text \<open>\<^verbatim>\<open>Number.prototype.toFixed\<close> belongs to the host language; the model takes it as
  the parameter \<open>toFixed\<close> (number, then digits).\<close>

definition speedAnalysis :: "(real \<Rightarrow> nat \<Rightarrow> string) \<Rightarrow> real option \<Rightarrow> analysis \<Rightarrow> analysis" where
  "speedAnalysis toFixed sp an =
     (case sp of
        Some s \<Rightarrow>
          (if s > 0 then pushInfo (''Device is moving at '' @ toFixed (s * (36 / 10)) 1 @ '' km/h'') an
           else an)
      | None \<Rightarrow> an)"

text \<open>The source text ends the heading message with the four bytes C3 82 C2 B0.\<close>

definition degreeSuffix :: string where
  "degreeSuffix = map char_of [195, 130, 194, 176 :: nat]"

definition headingAnalysis :: "(real \<Rightarrow> nat \<Rightarrow> string) \<Rightarrow> real option \<Rightarrow> analysis \<Rightarrow> analysis" where
  "headingAnalysis toFixed hdg an =
     (case hdg of
        Some h \<Rightarrow> pushInfo (''Device heading: '' @ toFixed h 1 @ degreeSuffix) an
      | None \<Rightarrow> an)"

definition environmentRecommendations :: "real \<Rightarrow> analysis \<Rightarrow> analysis" where
  "environmentRecommendations a an =
     (if a > 20 then
        pushRecommendation ''Make sure location services are set to \"High Accuracy\" mode.''
          (pushRecommendation ''Consider enabling WiFi and mobile networks for assisted GPS.'' an)
      else an)"

definition httpsWarning :: string where
  "httpsWarning = ''Not using HTTPS. Some browsers limit geolocation accuracy on HTTP.''"

definition httpsRecommendation :: string where
  "httpsRecommendation = ''Use HTTPS for maximum geolocation accuracy.''"

definition browserRecommendations :: "location \<Rightarrow> analysis \<Rightarrow> analysis" where
  "browserRecommendations loc an =
     (if protocol loc \<noteq> ''https:'' then
        pushRecommendation httpsRecommendation (pushWarning httpsWarning an)
      else an)"

definition analyzeLocationAccuracy ::
  "(real \<Rightarrow> nat \<Rightarrow> string) \<Rightarrow> location \<Rightarrow> 'a position_scheme \<Rightarrow> analysis" where
  "analyzeLocationAccuracy toFixed loc pos =
     (let c = coords pos;
          a = coords.accuracy c
      in browserRecommendations loc
           (environmentRecommendations a
             (headingAnalysis toFixed (heading c)
               (speedAnalysis toFixed (speed c)
                 (altitudeAnalysis (altitude c) (altitudeAccuracy c)
                   (accuracyAnalysis a (initialAnalysis a)))))))"

text \<open>The analysis as it stands before the last block runs.\<close>

definition beforeBrowser :: "(real \<Rightarrow> nat \<Rightarrow> string) \<Rightarrow> coords \<Rightarrow> analysis" where
  "beforeBrowser toFixed c =
     environmentRecommendations (coords.accuracy c)
       (headingAnalysis toFixed (coords.heading c)
         (speedAnalysis toFixed (coords.speed c)
           (altitudeAnalysis (coords.altitude c) (coords.altitudeAccuracy c)
             (accuracyAnalysis (coords.accuracy c) (initialAnalysis (coords.accuracy c))))))"

subsection \<open>Errors, promises and the platform\<close>

text \<open>\<^verbatim>\<open>GeolocationPositionError\<close> with its three code constants.\<close>

record geoError =
  code :: int
  message :: string

definition PERMISSION_DENIED :: int where
  "PERMISSION_DENIED = 1"

definition POSITION_UNAVAILABLE :: int where
  "POSITION_UNAVAILABLE = 2"

definition TIMEOUT :: int where
  "TIMEOUT = 3"

text \<open>The values a promise is rejected with or a callback receives: \<^verbatim>\<open>new Error(msg)\<close>,
  a platform error passed on as it is, or the \<^verbatim>\<open>TypeError\<close> of a property read on
  \<^verbatim>\<open>undefined\<close>.\<close>

datatype jsError = Error string | PositionError geoError | TypeError

datatype 'a promise = Resolved 'a | Rejected jsError | Pending

text \<open>What the platform answers to one query: it calls the success callback or the
  error callback.\<close>

datatype response = Success position | Failure geoError

record options =
  enableHighAccuracy :: bool
  timeout :: int
  maximumAge :: int

text \<open>The calls the code makes on the platform, in the order it makes them.\<close>

datatype effect =
  GetCurrentPosition options
  | WatchPosition options
  | ClearWatch nat
  | SetTimeout real

text \<open>The state of \<^verbatim>\<open>navigator.geolocation\<close>: the subscriptions that are active, the last
  identifier handed out, and the calls received. \<^verbatim>\<open>watchPosition\<close> of the platform
  returns an identifier greater than zero, here the successor of the last one;
  \<^verbatim>\<open>clearWatch\<close> of the platform removes the subscription with that identifier, if
  there is one.\<close>

record geolocation =
  watches :: "nat list"
  lastId :: nat
  calls :: "effect list"

text \<open>\<^verbatim>\<open>navigator.geolocation\<close> is \<open>None\<close> in a browser without the capability.\<close>

record navigator =
  geolocation :: "geolocation option"

subsection \<open>checkGeolocationSupport\<close>

definition checkGeolocationSupport :: "navigator \<Rightarrow> location \<Rightarrow> bool promise" where
  "checkGeolocationSupport nav loc =
     (if geolocation nav = None then
        Rejected (Error ''Geolocation is not supported by this browser'')
      else if protocol loc \<noteq> ''https:'' \<and> hostname loc \<noteq> ''localhost'' \<and>
              hostname loc \<noteq> ''127.0.0.1'' then
        Rejected (Error ''Geolocation requires HTTPS or localhost. Please use HTTPS or run on localhost.'')
      else Resolved True)"

subsection \<open>requestLocationPermission\<close>

text \<open>The objects the wrappers hand to their callers.\<close>

record reading =
  lat :: real
  lng :: real
  accuracy :: real
  timestamp :: int

record update = reading +
  altitude :: "real option"
  altitudeAccuracy :: "real option"
  heading :: "real option"
  speed :: "real option"

record locationData = update +
  coords :: coords
  rawPosition :: position

definition oneShotOptions :: options where
  "oneShotOptions = \<lparr> enableHighAccuracy = True, timeout = 30000, maximumAge = 0 \<rparr>"

text \<open>The \<^verbatim>\<open>switch\<close> of the error callback.\<close>

definition requestErrorMessage :: "geoError \<Rightarrow> string" where
  "requestErrorMessage e =
     (if code e = PERMISSION_DENIED then
        ''Location access denied. Please click 'Allow' when prompted, or enable location services in your browser settings.''
      else if code e = POSITION_UNAVAILABLE then
        ''Location information is unavailable. Please check your GPS settings and ensure location services are enabled.''
      else if code e = TIMEOUT then
        ''Location request timed out. Please try again.''
      else ''An unknown error occurred while retrieving location.'')"

definition toLocationData :: "position \<Rightarrow> locationData" where
  "toLocationData p =
     \<lparr> lat = latitude (position.coords p),
       lng = longitude (position.coords p),
       reading.accuracy = coords.accuracy (position.coords p),
       reading.timestamp = position.timestamp p,
       update.altitude = coords.altitude (position.coords p),
       update.altitudeAccuracy = coords.altitudeAccuracy (position.coords p),
       update.heading = coords.heading (position.coords p),
       update.speed = coords.speed (position.coords p),
       locationData.coords = position.coords p,
       rawPosition = p \<rparr>"

text \<open>The second argument is the platform's answer to the one query, \<open>None\<close> when it
  never calls back.\<close>

definition requestLocationPermission ::
  "navigator \<Rightarrow> response option \<Rightarrow> locationData promise" where
  "requestLocationPermission nav answer =
     (if geolocation nav = None then
        Rejected (Error ''Geolocation is not supported by this browser'')
      else
        (case answer of
           None \<Rightarrow> Pending
         | Some (Success p) \<Rightarrow> Resolved (toLocationData p)
         | Some (Failure e) \<Rightarrow> Rejected (Error (requestErrorMessage e))))"

subsection \<open>watchPosition and clearWatch\<close>

definition watchOptions :: options where
  "watchOptions = \<lparr> enableHighAccuracy = True, timeout = 30000, maximumAge = 10000 \<rparr>"

definition watchErrorMessage :: "geoError \<Rightarrow> string" where
  "watchErrorMessage e =
     (if code e = PERMISSION_DENIED then
        ''Location access denied. Please enable location services.''
      else if code e = POSITION_UNAVAILABLE then
        ''Location information is unavailable. Please check your GPS settings.''
      else if code e = TIMEOUT then
        ''Location request timed out.''
      else ''An unknown error occurred while tracking location.'')"

definition toUpdate :: "position \<Rightarrow> update" where
  "toUpdate p =
     \<lparr> lat = latitude (position.coords p),
       lng = longitude (position.coords p),
       reading.accuracy = coords.accuracy (position.coords p),
       reading.timestamp = position.timestamp p,
       update.altitude = coords.altitude (position.coords p),
       update.altitudeAccuracy = coords.altitudeAccuracy (position.coords p),
       update.heading = coords.heading (position.coords p),
       update.speed = coords.speed (position.coords p) \<rparr>"

text \<open>The two handlers registered with the platform. A callback of the caller is a
  function on the caller's state; the platform's answer to the subscription runs one of
  them.\<close>

definition watchHandlers ::
  "(update \<Rightarrow> 's \<Rightarrow> 's) \<Rightarrow> (jsError \<Rightarrow> 's \<Rightarrow> 's) \<Rightarrow> response \<Rightarrow> 's \<Rightarrow> 's" where
  "watchHandlers callback errorCallback answer st =
     (case answer of
        Success p \<Rightarrow> callback (toUpdate p) st
      | Failure e \<Rightarrow> errorCallback (Error (watchErrorMessage e)) st)"

text \<open>The call itself: the identifier returned (\<open>None\<close> for \<^verbatim>\<open>null\<close>), the platform
  and the caller's state after it.\<close>

definition watchPosition ::
  "(jsError \<Rightarrow> 's \<Rightarrow> 's) \<Rightarrow> navigator \<Rightarrow> 's \<Rightarrow> nat option \<times> navigator \<times> 's" where
  "watchPosition errorCallback nav st =
     (case geolocation nav of
        None \<Rightarrow>
          (None, nav, errorCallback (Error ''Geolocation is not supported by this browser'') st)
      | Some g \<Rightarrow>
          (let wid = lastId g + 1
           in (Some wid,
               nav\<lparr>geolocation :=
                     Some (g\<lparr>watches := watches g @ [wid], lastId := wid,
                             calls := calls g @ [WatchPosition watchOptions]\<rparr>)\<rparr>,
               st)))"

text \<open>\<^verbatim>\<open>if (watchId)\<close>: \<^verbatim>\<open>null\<close> and \<^verbatim>\<open>0\<close> are falsy.\<close>

fun truthy :: "nat option \<Rightarrow> bool" where
  "truthy None = False"
| "truthy (Some n) = (n \<noteq> 0)"

definition clearWatch :: "nat option \<Rightarrow> navigator \<Rightarrow> jsError + navigator" where
  "clearWatch watchId nav =
     (case watchId of
        Some wid \<Rightarrow>
          (if truthy watchId then
             (case geolocation nav of
                None \<Rightarrow> Inl TypeError
              | Some g \<Rightarrow>
                  Inr (nav\<lparr>geolocation :=
                             Some (g\<lparr>watches := removeAll wid (watches g),
                                     calls := calls g @ [ClearWatch wid]\<rparr>)\<rparr>))
           else Inr nav)
      | None \<Rightarrow> Inr nav)"

subsection \<open>The kinds of acquisition failure\<close>

text \<open>The four kinds the two \<^verbatim>\<open>switch\<close> statements tell apart: the three codes of the
  platform, and every other code.\<close>

datatype kind = PermissionDenied | PositionUnavailable | Timeout | Unknown

definition kindOf :: "geoError \<Rightarrow> kind" where
  "kindOf e =
     (if code e = PERMISSION_DENIED then PermissionDenied
      else if code e = POSITION_UNAVAILABLE then PositionUnavailable
      else if code e = TIMEOUT then Timeout
      else Unknown)"

subsection \<open>getMultipleReadings\<close>

record averaged = reading +
  readings :: "reading list"

definition toReading :: "position \<Rightarrow> reading" where
  "toReading p =
     \<lparr> lat = latitude (position.coords p),
       lng = longitude (position.coords p),
       reading.accuracy = coords.accuracy (position.coords p),
       reading.timestamp = position.timestamp p \<rparr>"

text \<open>
  The sums and the quotients of the average are those of binary64 numbers: each is
  rounded, so they are not the exact sum and quotient of the reals the numbers denote.
  The two operations are a parameter of the model: any addition and division on the
  reals for which adding to zero and dividing by one change nothing, as is the case in
  binary64. What is proved of the average holds for every such pair, so for one that
  adds and divides binary64 numbers as the host does (and any other reals without
  rounding).
\<close>

typedef arithmetic =
  "{(add :: real \<Rightarrow> real \<Rightarrow> real, dv :: real \<Rightarrow> real \<Rightarrow> real).
      (\<forall>x. add 0 x = x) \<and> (\<forall>x. dv x 1 = x)}"
  by (rule exI [of _ "((+), (/))"]) simp

setup_lifting type_definition_arithmetic

lift_definition plus64 :: "arithmetic \<Rightarrow> real \<Rightarrow> real \<Rightarrow> real" is "\<lambda>(add, dv). add" .

lift_definition divide64 :: "arithmetic \<Rightarrow> real \<Rightarrow> real \<Rightarrow> real" is "\<lambda>(add, dv). dv" .

text \<open>The arithmetic that rounds nothing. It agrees with binary64 wherever the exact
  result is a binary64 number, as with sums and quotients of small whole numbers.\<close>

lift_definition unrounded :: arithmetic is "((+), (/))"
  by simp

text \<open>The branch taken once \<^verbatim>\<open>currentCount >= count\<close>; \<open>now\<close> is the value of
  \<^verbatim>\<open>Date.now()\<close> there. Each \<^verbatim>\<open>reduce\<close> adds from the left, starting from 0.\<close>

definition average :: "arithmetic \<Rightarrow> int \<Rightarrow> reading list \<Rightarrow> averaged" where
  "average ar now rs =
     \<lparr> lat = divide64 ar (foldl (\<lambda>sum r. plus64 ar sum (lat r)) 0 rs) (real (length rs)),
       lng = divide64 ar (foldl (\<lambda>sum r. plus64 ar sum (lng r)) 0 rs) (real (length rs)),
       reading.accuracy =
         divide64 ar (foldl (\<lambda>sum r. plus64 ar sum (reading.accuracy r)) 0 rs) (real (length rs)),
       reading.timestamp = now,
       readings = rs \<rparr>"

text \<open>
  \<^verbatim>\<open>getReading\<close> with the variables it closes over as arguments. The list is the
  platform's answers to the successive queries; when it is used up the platform never
  calls back and the promise stays pending. The result is the state of the promise and
  the calls made.
\<close>

fun getReading ::
  "arithmetic \<Rightarrow> real \<Rightarrow> real \<Rightarrow> int \<Rightarrow> reading list \<Rightarrow> nat \<Rightarrow> response list
     \<Rightarrow> averaged promise \<times> effect list" where
  "getReading ar count interval now rs currentCount [] =
     (Pending, [GetCurrentPosition oneShotOptions])"
| "getReading ar count interval now rs currentCount (Failure e # answers) =
     (Rejected (PositionError e), [GetCurrentPosition oneShotOptions])"
| "getReading ar count interval now rs currentCount (Success p # answers) =
     (let rs' = rs @ [toReading p];
          currentCount' = currentCount + 1
      in if real currentCount' \<ge> count then
           (Resolved (average ar now rs'), [GetCurrentPosition oneShotOptions])
         else
           (let (outcome, effects) = getReading ar count interval now rs' currentCount' answers
            in (outcome, GetCurrentPosition oneShotOptions # SetTimeout interval # effects)))"

text \<open>An argument left out (\<open>None\<close>) takes its default.\<close>

fun withDefault :: "'a \<Rightarrow> 'a option \<Rightarrow> 'a" where
  "withDefault d None = d"
| "withDefault d (Some x) = x"

text \<open>Without the capability the first call of \<^verbatim>\<open>getReading\<close> throws inside the
  executor, which rejects the promise.\<close>

definition getMultipleReadings ::
  "arithmetic \<Rightarrow> navigator \<Rightarrow> int \<Rightarrow> real option \<Rightarrow> real option \<Rightarrow> response list
     \<Rightarrow> averaged promise \<times> effect list" where
  "getMultipleReadings ar nav now count interval answers =
     (if geolocation nav = None then (Rejected TypeError, [])
      else getReading ar (withDefault 3 count) (withDefault 2000 interval) now [] 0 answers)"

text \<open>The number of position queries among the calls made.\<close>

fun isQuery :: "effect \<Rightarrow> bool" where
  "isQuery (GetCurrentPosition _) = True"
| "isQuery _ = False"

definition queries :: "effect list \<Rightarrow> nat" where
  "queries effects = length (filter isQuery effects)"

text \<open>The number of successful answers after which \<^verbatim>\<open>currentCount >= count\<close> first
  holds, the test being made after each success only.\<close>

definition samplesTaken :: "real \<Rightarrow> nat" where
  "samplesTaken count = (if count \<le> 1 then 1 else nat \<lceil>count\<rceil>)"

text \<open>The sum a \<^verbatim>\<open>reduce\<close> from 0 computes, and that sum divided by the number of
  summands.\<close>

definition sum64 :: "arithmetic \<Rightarrow> real list \<Rightarrow> real" where
  "sum64 ar xs = foldl (plus64 ar) 0 xs"

definition mean64 :: "arithmetic \<Rightarrow> real list \<Rightarrow> real" where
  "mean64 ar xs = divide64 ar (sum64 ar xs) (real (length xs))"

text \<open>The arithmetic mean of a list of numbers.\<close>

definition mean :: "real list \<Rightarrow> real" where
  "mean xs = sum_list xs / real (length xs)"

subsection \<open>The tracking session of the map view (startAutoTracking, stopAutoTracking)\<close>

text \<open>The component state the two handlers read and write.\<close>

record mapView =
  watchId :: "nat option"
  isTracking :: bool
  locationStatus :: string
  error :: "string option"

text \<open>\<^verbatim>\<open>error.message\<close>. The text of a \<^verbatim>\<open>TypeError\<close> is the engine's own; the wrappers
  hand their callbacks values made with \<^verbatim>\<open>new Error\<close> only.\<close>

fun messageOf :: "jsError \<Rightarrow> string" where
  "messageOf (Error m) = m"
| "messageOf (PositionError e) = message e"
| "messageOf TypeError = ''Cannot read properties of undefined''"

text \<open>The error callback handed to \<^verbatim>\<open>watchPosition\<close>.\<close>

definition trackingError :: "jsError \<Rightarrow> mapView \<Rightarrow> mapView" where
  "trackingError e v =
     v\<lparr>error := Some (if messageOf e \<noteq> [] then messageOf e
                      else ''Location tracking failed. Please check your location permissions.''),
       locationStatus := ''Auto-tracking failed''\<rparr>"

text \<open>What a call hands back to its caller: nothing, or a subscription identifier. Both
  handlers end without a \<^verbatim>\<open>return\<close> of a value.\<close>

datatype returned = Undefined | Handle nat

text \<open>
  A handler is made at a render and closes over the \<^verbatim>\<open>watchId\<close> of that render: the
  first argument. Its test and its \<^verbatim>\<open>clearWatch\<close> read that value; the setters it calls
  write the state of the component as it is when the handler runs: the second argument,
  with the platform.
\<close>

definition startAutoTracking ::
  "nat option \<Rightarrow> mapView \<times> navigator \<Rightarrow> returned \<times> mapView \<times> navigator" where
  "startAutoTracking closedOver w =
     (case w of (v, nav) \<Rightarrow>
        if truthy closedOver then (Undefined, v, nav)
        else
          (case watchPosition trackingError nav (v\<lparr>locationStatus := ''Starting auto-tracking...''\<rparr>) of
             (newWatchId, nav', v') \<Rightarrow>
               (Undefined, v'\<lparr>watchId := newWatchId, isTracking := True\<rparr>, nav')))"

definition stopAutoTracking ::
  "nat option \<Rightarrow> mapView \<times> navigator \<Rightarrow> jsError + returned \<times> mapView \<times> navigator" where
  "stopAutoTracking closedOver w =
     (case w of (v, nav) \<Rightarrow>
        if truthy closedOver then
          (case clearWatch closedOver nav of
             Inl e \<Rightarrow> Inl e
           | Inr nav' \<Rightarrow>
               Inr (Undefined,
                    v\<lparr>watchId := None, isTracking := False,
                      locationStatus := ''Auto-tracking stopped''\<rparr>, nav'))
        else Inr (Undefined, v, nav))"

text \<open>A call of one of the two handlers, with the \<^verbatim>\<open>watchId\<close> its handler closed over.
  The button calls the handler of the render on screen; the stop that a deletion makes
  after its request has returned is the handler of the render in which the deletion was
  begun.\<close>

datatype call = Start (closure: "nat option") | Stop (closure: "nat option")

fun perform :: "call \<Rightarrow> mapView \<times> navigator \<Rightarrow> jsError + mapView \<times> navigator" where
  "perform (Start c) w = Inr (snd (startAutoTracking c w))"
| "perform (Stop c) w = (case stopAutoTracking c w of Inl e \<Rightarrow> Inl e | Inr r \<Rightarrow> Inr (snd r))"

text \<open>A sequence of calls stops at the first one that throws.\<close>

fun run :: "call list \<Rightarrow> mapView \<times> navigator \<Rightarrow> jsError + mapView \<times> navigator" where
  "run [] w = Inr w"
| "run (c # cs) w = (case perform c w of Inl e \<Rightarrow> Inl e | Inr w' \<Rightarrow> run cs w')"

text \<open>Every call of the sequence is made through the handler of the latest render: it
  closes over the \<^verbatim>\<open>watchId\<close> the component has when the call is made.\<close>

fun current :: "call list \<Rightarrow> mapView \<times> navigator \<Rightarrow> bool" where
  "current [] w = True"
| "current (c # cs) w =
     (closure c = watchId (fst w) \<and>
      (case perform c w of Inl e \<Rightarrow> True | Inr w' \<Rightarrow> current cs w'))"

text \<open>The component as it is mounted: \<^verbatim>\<open>useState(null)\<close>, \<^verbatim>\<open>useState(false)\<close>,
  \<^verbatim>\<open>useState("Getting location...")\<close>, \<^verbatim>\<open>useState(null)\<close>.\<close>

definition initialView :: mapView where
  "initialView =
     \<lparr> watchId = None, isTracking = False, locationStatus = ''Getting location...'',
       error = None \<rparr>"

text \<open>The subscriptions the platform holds for the component.\<close>

definition subscriptions :: "navigator \<Rightarrow> nat list" where
  "subscriptions nav = (case geolocation nav of None \<Rightarrow> [] | Some g \<Rightarrow> watches g)"

text \<open>The component holds the identifier of every subscription the platform holds for
  it: none, or the one in \<^verbatim>\<open>watchId\<close>.\<close>

definition oneSubscription :: "mapView \<times> navigator \<Rightarrow> bool" where
  "oneSubscription w =
     (case w of (v, nav) \<Rightarrow>
        (case watchId v of
           None \<Rightarrow> subscriptions nav = []
         | Some wid \<Rightarrow> subscriptions nav = [wid] \<and> wid \<noteq> 0))"

subsection \<open>analyzeLocationAccuracy on the objects of the page\<close>

text \<open>
  The three lists of the analysis are arrays, objects of the page that \<^verbatim>\<open>push\<close> writes
  to, and the sample is an object the function is handed by reference. To say what a call
  writes, this second model of the function keeps the objects in a store: the arrays of
  strings and the samples that exist, by address, with the next address to hand out, and
  \<^verbatim>\<open>window.location\<close> beside them.
\<close>

datatype cell = Strings "string list" | Sample position

record page =
  window :: location
  heap :: "nat \<rightharpoonup> cell"
  nextAddr :: nat

text \<open>The literal \<^verbatim>\<open>[]\<close>: a new array.\<close>

definition newArray :: "page \<Rightarrow> nat \<times> page" where
  "newArray pg =
     (nextAddr pg,
      pg\<lparr>heap := (heap pg)(nextAddr pg \<mapsto> Strings []), nextAddr := Suc (nextAddr pg)\<rparr>)"

fun appended :: "string \<Rightarrow> cell \<Rightarrow> cell" where
  "appended s (Strings xs) = Strings (xs @ [s])"
| "appended s (Sample p) = Sample p"

text \<open>\<^verbatim>\<open>push\<close> on the array at an address.\<close>

definition push :: "nat \<Rightarrow> string \<Rightarrow> page \<Rightarrow> page" where
  "push a s pg = pg\<lparr>heap := (heap pg)(a := map_option (appended s) (heap pg a))\<rparr>"

text \<open>The object \<^verbatim>\<open>analysis\<close>: two values and the addresses of its three arrays.\<close>

record analysisObject =
  accuracyOf :: real
  accuracyLevelOf :: string
  recommendationsAt :: nat
  warningsAt :: nat
  infoAt :: nat

definition accuracyAnalysisOn :: "real \<Rightarrow> analysisObject \<Rightarrow> page \<Rightarrow> page" where
  "accuracyAnalysisOn a obj pg =
     (if a > 100 then
        push (recommendationsAt obj) ''Try moving outdoors with clear sky view for better GPS accuracy.''
          (push (warningsAt obj) ''Location accuracy is very poor (>100m). This might be network-based location.'' pg)
      else if a > 50 then
        push (recommendationsAt obj) ''Move to an open area or near a window for better GPS reception.''
          (push (warningsAt obj) ''Location accuracy is low (50-100m). GPS signal might be weak.'' pg)
      else if a > 20 then
        push (recommendationsAt obj) ''Wait a few moments for GPS to settle, or move to a more open area.''
          (push (infoAt obj) ''Location accuracy is moderate (20-50m). GPS is working but could be better.'' pg)
      else if a > 10 then
        push (infoAt obj) ''Location accuracy is good (10-20m). GPS is working well.'' pg
      else
        push (infoAt obj) ''Location accuracy is excellent (<10m). GPS is working optimally.'' pg)"

definition altitudeAnalysisOn ::
  "real option \<Rightarrow> real option \<Rightarrow> analysisObject \<Rightarrow> page \<Rightarrow> page" where
  "altitudeAnalysisOn alt altAcc obj pg =
     (case (alt, altAcc) of
        (Some _, Some aa) \<Rightarrow>
          (if aa > 50 then push (warningsAt obj) ''Altitude accuracy is poor. This is normal for GPS.'' pg
           else pg)
      | _ \<Rightarrow> pg)"

definition speedAnalysisOn ::
  "(real \<Rightarrow> nat \<Rightarrow> string) \<Rightarrow> real option \<Rightarrow> analysisObject \<Rightarrow> page \<Rightarrow> page" where
  "speedAnalysisOn toFixed sp obj pg =
     (case sp of
        Some s \<Rightarrow>
          (if s > 0 then
             push (infoAt obj) (''Device is moving at '' @ toFixed (s * (36 / 10)) 1 @ '' km/h'') pg
           else pg)
      | None \<Rightarrow> pg)"

definition headingAnalysisOn ::
  "(real \<Rightarrow> nat \<Rightarrow> string) \<Rightarrow> real option \<Rightarrow> analysisObject \<Rightarrow> page \<Rightarrow> page" where
  "headingAnalysisOn toFixed hdg obj pg =
     (case hdg of
        Some h \<Rightarrow> push (infoAt obj) (''Device heading: '' @ toFixed h 1 @ degreeSuffix) pg
      | None \<Rightarrow> pg)"

definition environmentRecommendationsOn :: "real \<Rightarrow> analysisObject \<Rightarrow> page \<Rightarrow> page" where
  "environmentRecommendationsOn a obj pg =
     (if a > 20 then
        push (recommendationsAt obj) ''Make sure location services are set to \"High Accuracy\" mode.''
          (push (recommendationsAt obj) ''Consider enabling WiFi and mobile networks for assisted GPS.'' pg)
      else pg)"

definition browserRecommendationsOn :: "analysisObject \<Rightarrow> page \<Rightarrow> page" where
  "browserRecommendationsOn obj pg =
     (if protocol (window pg) \<noteq> ''https:'' then
        push (recommendationsAt obj) httpsRecommendation (push (warningsAt obj) httpsWarning pg)
      else pg)"

text \<open>The call: the argument is the address of the sample. Reading \<^verbatim>\<open>coords\<close> of
  what is not a sample throws. The object literal makes the three arrays in the order
  it names them, and the level as in \<open>initialAnalysis\<close>.\<close>

definition analyzeLocationAccuracyOn ::
  "(real \<Rightarrow> nat \<Rightarrow> string) \<Rightarrow> nat \<Rightarrow> page \<Rightarrow> jsError + analysisObject \<times> page" where
  "analyzeLocationAccuracyOn toFixed p pg =
     (case heap pg p of
        Some (Sample pos) \<Rightarrow>
          (let c = position.coords pos;
               a = coords.accuracy c;
               (r, pg1) = newArray pg;
               (w, pg2) = newArray pg1;
               (i, pg3) = newArray pg2;
               obj = \<lparr> accuracyOf = a,
                       accuracyLevelOf = accuracyLevel (initialAnalysis a),
                       recommendationsAt = r, warningsAt = w, infoAt = i \<rparr>
           in Inr (obj,
                browserRecommendationsOn obj
                  (environmentRecommendationsOn a obj
                    (headingAnalysisOn toFixed (coords.heading c) obj
                      (speedAnalysisOn toFixed (coords.speed c) obj
                        (altitudeAnalysisOn (coords.altitude c) (coords.altitudeAccuracy c) obj
                          (accuracyAnalysisOn a obj pg3)))))))
      | _ \<Rightarrow> Inl TypeError)"

text \<open>What the caller reads from the object returned.\<close>

definition stringsAt :: "page \<Rightarrow> nat \<Rightarrow> string list" where
  "stringsAt pg a = (case heap pg a of Some (Strings xs) \<Rightarrow> xs | _ \<Rightarrow> [])"

definition readAnalysis :: "analysisObject \<Rightarrow> page \<Rightarrow> analysis" where
  "readAnalysis obj pg =
     \<lparr> analysis.accuracy = accuracyOf obj,
       accuracyLevel = accuracyLevelOf obj,
       recommendations = stringsAt pg (recommendationsAt obj),
       warnings = stringsAt pg (warningsAt obj),
       info = stringsAt pg (infoAt obj) \<rparr>"

text \<open>
  The relation kept while the blocks run, between the page \<open>pg\<close>, the page \<open>pg0\<close> at the
  call and the analysis \<open>an\<close> of the first model: the three arrays of the object are
  three different arrays, none of which existed at the call; the object reads as \<open>an\<close>;
  and nothing else differs from \<open>pg0\<close>.
\<close>

definition tracks :: "analysisObject \<Rightarrow> page \<Rightarrow> page \<Rightarrow> analysis \<Rightarrow> bool" where
  "tracks obj pg0 pg an =
     (distinct [recommendationsAt obj, warningsAt obj, infoAt obj] \<and>
      {recommendationsAt obj, warningsAt obj, infoAt obj} \<inter> dom (heap pg0) = {} \<and>
      heap pg (recommendationsAt obj) = Some (Strings (recommendations an)) \<and>
      heap pg (warningsAt obj) = Some (Strings (warnings an)) \<and>
      heap pg (infoAt obj) = Some (Strings (info an)) \<and>
      accuracyOf obj = analysis.accuracy an \<and>
      accuracyLevelOf obj = accuracyLevel an \<and>
      window pg = window pg0 \<and>
      nextAddr pg = nextAddr pg0 + 3 \<and>
      dom (heap pg) = dom (heap pg0) \<union> {recommendationsAt obj, warningsAt obj, infoAt obj} \<and>
      (\<forall>a\<in>dom (heap pg0). heap pg a = heap pg0 a))"

subsection \<open>The position built from an averaged result (requestMultipleReadings)\<close>

text \<open>The map view analyses an object it builds from latitude, longitude and accuracy,
  with every other coordinate \<^verbatim>\<open>null\<close>.\<close>

definition positionOf :: "'a reading_scheme \<Rightarrow> position" where
  "positionOf result =
     \<lparr> position.coords =
         \<lparr> latitude = lat result, longitude = lng result,
           coords.accuracy = reading.accuracy result,
           coords.altitude = None, coords.altitudeAccuracy = None,
           coords.heading = None, coords.speed = None \<rparr>,
       position.timestamp = reading.timestamp result \<rparr>"

section \<open>Properties of the accuracy analysis\<close>

lemma accuracyLevel_push [simp]:
  "accuracyLevel (pushWarning s an) = accuracyLevel an"
  "accuracyLevel (pushRecommendation s an) = accuracyLevel an"
  "accuracyLevel (pushInfo s an) = accuracyLevel an"
  by (simp_all add: pushWarning_def pushRecommendation_def pushInfo_def)

lemma warnings_push [simp]:
  "warnings (pushWarning s an) = warnings an @ [s]"
  "warnings (pushRecommendation s an) = warnings an"
  "warnings (pushInfo s an) = warnings an"
  by (simp_all add: pushWarning_def pushRecommendation_def pushInfo_def)

lemma recommendations_push [simp]:
  "recommendations (pushWarning s an) = recommendations an"
  "recommendations (pushRecommendation s an) = recommendations an @ [s]"
  "recommendations (pushInfo s an) = recommendations an"
  by (simp_all add: pushWarning_def pushRecommendation_def pushInfo_def)

lemma analyze_eq:
  "analyzeLocationAccuracy tf loc pos =
     browserRecommendations loc (beforeBrowser tf (position.coords pos))"
  by (simp add: analyzeLocationAccuracy_def beforeBrowser_def Let_def)

lemma accuracyLevel_stages [simp]:
  "accuracyLevel (accuracyAnalysis a an) = accuracyLevel an"
  "accuracyLevel (altitudeAnalysis alt aa an) = accuracyLevel an"
  "accuracyLevel (speedAnalysis tf sp an) = accuracyLevel an"
  "accuracyLevel (headingAnalysis tf hdg an) = accuracyLevel an"
  "accuracyLevel (environmentRecommendations a an) = accuracyLevel an"
  "accuracyLevel (browserRecommendations loc an) = accuracyLevel an"
  by (simp_all add: accuracyAnalysis_def altitudeAnalysis_def speedAnalysis_def
      headingAnalysis_def environmentRecommendations_def browserRecommendations_def
      split: option.splits)

lemma accuracyLevel_analyze:
  "accuracyLevel (analyzeLocationAccuracy tf loc pos) =
     accuracyLevel (initialAnalysis (coords.accuracy (position.coords pos)))"
  by (simp add: analyze_eq beforeBrowser_def)

text \<open>
  C1. For a sample whose accuracy is not negative, the tier is decided by exclusive
  upper bounds, the first that holds: below 5 Excellent, below 10 Very High, below 20
  High, below 50 Medium, below 100 Low, and Very Low otherwise.
\<close>

theorem tier_thresholds:
  assumes "0 \<le> coords.accuracy (position.coords pos)"
  shows "(let a = coords.accuracy (position.coords pos);
              level = accuracyLevel (analyzeLocationAccuracy toFixed loc pos)
          in (a < 5 \<longrightarrow> level = ''Excellent'') \<and>
             (5 \<le> a \<and> a < 10 \<longrightarrow> level = ''Very High'') \<and>
             (10 \<le> a \<and> a < 20 \<longrightarrow> level = ''High'') \<and>
             (20 \<le> a \<and> a < 50 \<longrightarrow> level = ''Medium'') \<and>
             (50 \<le> a \<and> a < 100 \<longrightarrow> level = ''Low'') \<and>
             (100 \<le> a \<longrightarrow> level = ''Very Low''))"
  by (simp add: accuracyLevel_analyze initialAnalysis_def Let_def)

theorem tier_thresholds_witness:
  "(0::real) \<le> 7 \<and>
   accuracyLevel (analyzeLocationAccuracy (\<lambda>x d. [])
     \<lparr>protocol = ''https:'', hostname = ''example.org''\<rparr>
     (positionOf \<lparr>lat = 1, lng = 2, reading.accuracy = 7, reading.timestamp = 0\<rparr>)) = ''Very High''"
  using tier_thresholds [of "positionOf \<lparr>lat = 1, lng = 2, reading.accuracy = 7, reading.timestamp = 0\<rparr>"
      "\<lambda>x d. []" "\<lparr>protocol = ''https:'', hostname = ''example.org''\<rparr>"]
  by (simp add: positionOf_def Let_def)

lemma level_is_tier:
  "accuracyLevel (initialAnalysis a) \<in>
     set [''Excellent'', ''Very High'', ''High'', ''Medium'', ''Low'', ''Very Low'']"
  by (simp add: initialAnalysis_def)

text \<open>
  C2, as amended. For a sample whose accuracy is not negative the analysis names exactly
  one of the six tiers, and the bounds are exclusive: an accuracy of exactly 5 is Very
  High, exactly 10 is High (not Very High), exactly 20 is Medium, exactly 50 is Low and
  exactly 100 is Very Low.
\<close>

theorem tier_boundaries:
  assumes "0 \<le> coords.accuracy (position.coords pos)"
  shows "(let a = coords.accuracy (position.coords pos);
              level = accuracyLevel (analyzeLocationAccuracy toFixed loc pos)
          in (\<exists>!t. t \<in> set [''Excellent'', ''Very High'', ''High'', ''Medium'', ''Low'', ''Very Low'']
                  \<and> level = t) \<and>
             (a = 5 \<longrightarrow> level = ''Very High'') \<and>
             (a = 10 \<longrightarrow> level = ''High'') \<and>
             (a = 20 \<longrightarrow> level = ''Medium'') \<and>
             (a = 50 \<longrightarrow> level = ''Low'') \<and>
             (a = 100 \<longrightarrow> level = ''Very Low''))"
proof -
  let ?a = "coords.accuracy (position.coords pos)"
  let ?level = "accuracyLevel (analyzeLocationAccuracy toFixed loc pos)"
  have level: "?level = accuracyLevel (initialAnalysis ?a)"
    by (rule accuracyLevel_analyze)
  have one: "\<exists>!t. t \<in> set [''Excellent'', ''Very High'', ''High'', ''Medium'', ''Low'', ''Very Low'']
                  \<and> ?level = t"
    using level_is_tier [of ?a] unfolding level by blast
  have bounds: "(?a = 5 \<longrightarrow> ?level = ''Very High'') \<and> (?a = 10 \<longrightarrow> ?level = ''High'') \<and>
      (?a = 20 \<longrightarrow> ?level = ''Medium'') \<and> (?a = 50 \<longrightarrow> ?level = ''Low'') \<and>
      (?a = 100 \<longrightarrow> ?level = ''Very Low'')"
    unfolding level by (simp add: initialAnalysis_def)
  show ?thesis
    unfolding Let_def using one bounds by (rule conjI)
qed

theorem tier_boundaries_witness:
  "(0::real) \<le> 10 \<and>
   accuracyLevel (analyzeLocationAccuracy (\<lambda>x d. [])
     \<lparr>protocol = ''https:'', hostname = ''example.org''\<rparr>
     (positionOf \<lparr>lat = 1, lng = 2, reading.accuracy = 10, reading.timestamp = 0\<rparr>)) = ''High''"
  using tier_boundaries [of "positionOf \<lparr>lat = 1, lng = 2, reading.accuracy = 10, reading.timestamp = 0\<rparr>"
      "\<lambda>x d. []" "\<lparr>protocol = ''https:'', hostname = ''example.org''\<rparr>"]
  by (simp add: positionOf_def Let_def)

text \<open>C2 as it was stated fails: an accuracy of exactly 10 is not classified Very High.\<close>

theorem accuracy_ten_counterexample:
  "accuracyLevel (analyzeLocationAccuracy (\<lambda>x d. [])
     \<lparr>protocol = ''https:'', hostname = ''example.org''\<rparr>
     (positionOf \<lparr>lat = 1, lng = 2, reading.accuracy = 10, reading.timestamp = 0\<rparr>)) \<noteq> ''Very High''"
  by (simp add: accuracyLevel_analyze initialAnalysis_def positionOf_def)

subsection \<open>The messages about HTTPS\<close>

lemma httpsWarning_hd: "hd httpsWarning = CHR ''N''"
  by (simp add: httpsWarning_def)

lemma httpsRecommendation_hd: "hd httpsRecommendation = CHR ''U''"
  by (simp add: httpsRecommendation_def)

lemma warnings_stages:
  "\<forall>w\<in>set (warnings an). hd w \<noteq> CHR ''N'' \<Longrightarrow>
     \<forall>w\<in>set (warnings (accuracyAnalysis a an)). hd w \<noteq> CHR ''N''"
  "\<forall>w\<in>set (warnings an). hd w \<noteq> CHR ''N'' \<Longrightarrow>
     \<forall>w\<in>set (warnings (altitudeAnalysis alt aa an)). hd w \<noteq> CHR ''N''"
  "warnings (speedAnalysis tf sp an) = warnings an"
  "warnings (headingAnalysis tf hdg an) = warnings an"
  "warnings (environmentRecommendations a an) = warnings an"
  by (simp_all add: accuracyAnalysis_def altitudeAnalysis_def speedAnalysis_def
      headingAnalysis_def environmentRecommendations_def split: option.splits)

lemma recommendations_stages:
  "\<forall>w\<in>set (recommendations an). hd w \<noteq> CHR ''U'' \<Longrightarrow>
     \<forall>w\<in>set (recommendations (accuracyAnalysis a an)). hd w \<noteq> CHR ''U''"
  "recommendations (altitudeAnalysis alt aa an) = recommendations an"
  "recommendations (speedAnalysis tf sp an) = recommendations an"
  "recommendations (headingAnalysis tf hdg an) = recommendations an"
  "\<forall>w\<in>set (recommendations an). hd w \<noteq> CHR ''U'' \<Longrightarrow>
     \<forall>w\<in>set (recommendations (environmentRecommendations a an)). hd w \<noteq> CHR ''U''"
  by (simp_all add: accuracyAnalysis_def altitudeAnalysis_def speedAnalysis_def
      headingAnalysis_def environmentRecommendations_def split: option.splits)

text \<open>No earlier block writes either message: every other warning starts with another
  letter than N, every other recommendation with another letter than U.\<close>

lemma httpsWarning_fresh: "httpsWarning \<notin> set (warnings (beforeBrowser tf c))"
proof -
  let ?a = "coords.accuracy c"
  have 0: "\<forall>w\<in>set (warnings (initialAnalysis ?a)). hd w \<noteq> CHR ''N''"
    by (simp add: initialAnalysis_def)
  have 1: "\<forall>w\<in>set (warnings (accuracyAnalysis ?a (initialAnalysis ?a))). hd w \<noteq> CHR ''N''"
    using 0 by (rule warnings_stages(1))
  have 2: "\<forall>w\<in>set (warnings (altitudeAnalysis (coords.altitude c) (coords.altitudeAccuracy c)
     (accuracyAnalysis ?a (initialAnalysis ?a)))). hd w \<noteq> CHR ''N''"
    using 1 by (rule warnings_stages(2))
  have "\<forall>w\<in>set (warnings (beforeBrowser tf c)). hd w \<noteq> CHR ''N''"
    unfolding beforeBrowser_def warnings_stages(3-5) by (rule 2)
  then show ?thesis
    using httpsWarning_hd by blast
qed

lemma httpsRecommendation_fresh:
  "httpsRecommendation \<notin> set (recommendations (beforeBrowser tf c))"
proof -
  let ?a = "coords.accuracy c"
  have 0: "\<forall>w\<in>set (recommendations (initialAnalysis ?a)). hd w \<noteq> CHR ''U''"
    by (simp add: initialAnalysis_def)
  have 1: "\<forall>w\<in>set (recommendations (accuracyAnalysis ?a (initialAnalysis ?a))). hd w \<noteq> CHR ''U''"
    using 0 by (rule recommendations_stages(1))
  have "\<forall>w\<in>set (recommendations (beforeBrowser tf c)). hd w \<noteq> CHR ''U''"
    unfolding beforeBrowser_def
    by (rule recommendations_stages(5)) (simp only: recommendations_stages(2-4), rule 1)
  then show ?thesis
    using httpsRecommendation_hd by blast
qed

text \<open>
  C6, as amended. The analysis holds the warning about HTTPS and the recommendation to
  use HTTPS exactly when the protocol of the page is not \<^verbatim>\<open>https:\<close>, whatever the host
  name: a page served over HTTPS has neither message, a page served over plain HTTP has
  both, also from the loopback host.
\<close>

theorem https_messages:
  "(httpsWarning \<in> set (warnings (analyzeLocationAccuracy toFixed loc pos))
      \<longleftrightarrow> protocol loc \<noteq> ''https:'') \<and>
   (httpsRecommendation \<in> set (recommendations (analyzeLocationAccuracy toFixed loc pos))
      \<longleftrightarrow> protocol loc \<noteq> ''https:'')"
  by (simp add: analyze_eq browserRecommendations_def httpsWarning_fresh httpsRecommendation_fresh)

theorem https_messages_witness:
  "httpsWarning \<in> set (warnings (analyzeLocationAccuracy (\<lambda>x d. [])
      \<lparr>protocol = ''http:'', hostname = ''example.org''\<rparr>
      (positionOf \<lparr>lat = 1, lng = 2, reading.accuracy = 7, reading.timestamp = 0\<rparr>))) \<and>
   httpsRecommendation \<notin> set (recommendations (analyzeLocationAccuracy (\<lambda>x d. [])
      \<lparr>protocol = ''https:'', hostname = ''example.org''\<rparr>
      (positionOf \<lparr>lat = 1, lng = 2, reading.accuracy = 7, reading.timestamp = 0\<rparr>)))"
  using https_messages [of "\<lambda>x d. []" "\<lparr>protocol = ''http:'', hostname = ''example.org''\<rparr>"
      "positionOf \<lparr>lat = 1, lng = 2, reading.accuracy = 7, reading.timestamp = 0\<rparr>"]
    https_messages [of "\<lambda>x d. []" "\<lparr>protocol = ''https:'', hostname = ''example.org''\<rparr>"
      "positionOf \<lparr>lat = 1, lng = 2, reading.accuracy = 7, reading.timestamp = 0\<rparr>"]
  by simp

text \<open>C6 as it was stated fails: a page on \<^verbatim>\<open>http://localhost\<close> passes the support check
  (a loopback origin) and still gets both messages.\<close>

theorem loopback_counterexample:
  "checkGeolocationSupport \<lparr>geolocation = Some \<lparr>watches = [], lastId = 0, calls = []\<rparr>\<rparr>
     \<lparr>protocol = ''http:'', hostname = ''localhost''\<rparr> = Resolved True \<and>
   httpsWarning \<in> set (warnings (analyzeLocationAccuracy (\<lambda>x d. [])
      \<lparr>protocol = ''http:'', hostname = ''localhost''\<rparr>
      (positionOf \<lparr>lat = 1, lng = 2, reading.accuracy = 7, reading.timestamp = 0\<rparr>))) \<and>
   httpsRecommendation \<in> set (recommendations (analyzeLocationAccuracy (\<lambda>x d. [])
      \<lparr>protocol = ''http:'', hostname = ''localhost''\<rparr>
      (positionOf \<lparr>lat = 1, lng = 2, reading.accuracy = 7, reading.timestamp = 0\<rparr>)))"
  by (simp add: checkGeolocationSupport_def analyze_eq browserRecommendations_def)

subsection \<open>What the analysis reads and writes\<close>

lemma tracks_push:
  assumes "tracks obj pg0 pg an"
  shows "tracks obj pg0 (push (warningsAt obj) s pg) (pushWarning s an)"
    and "tracks obj pg0 (push (recommendationsAt obj) s pg) (pushRecommendation s an)"
    and "tracks obj pg0 (push (infoAt obj) s pg) (pushInfo s an)"
  using assms
  by (auto simp: tracks_def push_def pushWarning_def pushRecommendation_def pushInfo_def
      dom_def)

lemma tracks_blocks:
  assumes "tracks obj pg0 pg an"
  shows "tracks obj pg0 (accuracyAnalysisOn a obj pg) (accuracyAnalysis a an)"
    and "tracks obj pg0 (altitudeAnalysisOn alt aa obj pg) (altitudeAnalysis alt aa an)"
    and "tracks obj pg0 (speedAnalysisOn tf sp obj pg) (speedAnalysis tf sp an)"
    and "tracks obj pg0 (headingAnalysisOn tf hdg obj pg) (headingAnalysis tf hdg an)"
    and "tracks obj pg0 (environmentRecommendationsOn a obj pg) (environmentRecommendations a an)"
  using assms
  by (simp_all add: accuracyAnalysisOn_def accuracyAnalysis_def altitudeAnalysisOn_def
      altitudeAnalysis_def speedAnalysisOn_def speedAnalysis_def headingAnalysisOn_def
      headingAnalysis_def environmentRecommendationsOn_def environmentRecommendations_def
      tracks_push split: option.splits)

lemma tracks_browser:
  assumes "tracks obj pg0 pg an"
  shows "tracks obj pg0 (browserRecommendationsOn obj pg) (browserRecommendations (window pg0) an)"
proof -
  have "window pg = window pg0"
    using assms by (simp add: tracks_def)
  then show ?thesis
    using assms by (simp add: browserRecommendationsOn_def browserRecommendations_def tracks_push)
qed

lemma tracks_initial:
  assumes "dom (heap pg) \<subseteq> {..<nextAddr pg}"
  shows "tracks
           \<lparr> accuracyOf = a, accuracyLevelOf = accuracyLevel (initialAnalysis a),
             recommendationsAt = nextAddr pg, warningsAt = Suc (nextAddr pg),
             infoAt = Suc (Suc (nextAddr pg)) \<rparr>
           pg
           (snd (newArray (snd (newArray (snd (newArray pg))))))
           (initialAnalysis a)"
proof -
  have "nextAddr pg \<notin> dom (heap pg)" "Suc (nextAddr pg) \<notin> dom (heap pg)"
    "Suc (Suc (nextAddr pg)) \<notin> dom (heap pg)"
    using assms by auto
  then show ?thesis
    by (auto simp: tracks_def newArray_def initialAnalysis_def)
qed

lemma tracks_read:
  "tracks obj pg0 pg an \<Longrightarrow> readAnalysis obj pg = an"
  by (simp add: tracks_def readAnalysis_def stringsAt_def)


lemma analysis_depends:
  assumes "(protocol loc1 = ''https:'') = (protocol loc2 = ''https:'')"
    and "position.coords pos1 = position.coords pos2"
  shows "analyzeLocationAccuracy toFixed loc1 pos1 = analyzeLocationAccuracy toFixed loc2 pos2"
  using assms by (simp add: analyze_eq browserRecommendations_def)

lemma analyzeOn_tracks:
  assumes "dom (heap pg) \<subseteq> {..<nextAddr pg}" and "heap pg p = Some (Sample pos)"
  shows "\<exists>obj pg'. analyzeLocationAccuracyOn tf p pg = Inr (obj, pg') \<and>
           tracks obj pg pg' (analyzeLocationAccuracy tf (window pg) pos)"
proof -
  let ?c = "position.coords pos"
  let ?a = "coords.accuracy ?c"
  let ?obj = "\<lparr> accuracyOf = ?a, accuracyLevelOf = accuracyLevel (initialAnalysis ?a),
                recommendationsAt = nextAddr pg, warningsAt = Suc (nextAddr pg),
                infoAt = Suc (Suc (nextAddr pg)) \<rparr>"
  let ?pg3 = "snd (newArray (snd (newArray (snd (newArray pg)))))"
  let ?pg' = "browserRecommendationsOn ?obj
                (environmentRecommendationsOn ?a ?obj
                  (headingAnalysisOn tf (coords.heading ?c) ?obj
                    (speedAnalysisOn tf (coords.speed ?c) ?obj
                      (altitudeAnalysisOn (coords.altitude ?c) (coords.altitudeAccuracy ?c) ?obj
                        (accuracyAnalysisOn ?a ?obj ?pg3)))))"
  have call: "analyzeLocationAccuracyOn tf p pg = Inr (?obj, ?pg')"
    using assms(2) by (simp add: analyzeLocationAccuracyOn_def newArray_def Let_def)
  have "tracks ?obj pg ?pg3 (initialAnalysis ?a)"
    using assms(1) by (rule tracks_initial)
  then have "tracks ?obj pg ?pg'
      (browserRecommendations (window pg) (beforeBrowser tf ?c))"
    unfolding beforeBrowser_def
    by (intro tracks_browser tracks_blocks)
  then have "tracks ?obj pg ?pg' (analyzeLocationAccuracy tf (window pg) pos)"
    by (simp add: analyze_eq)
  with call show ?thesis
    by blast
qed

text \<open>
  C9. A call of the analysis on a sample of the page returns its object and leaves
  \<^verbatim>\<open>window.location\<close> and every object that existed before the call as they were, the
  sample among them: it writes to the three arrays it makes for its result and to
  nothing else. What the caller reads from the result is the analysis of the first
  model, and it depends on nothing but the coordinates of the sample and on whether the
  protocol of the page is \<^verbatim>\<open>https:\<close>: two calls that agree on these, on any two pages,
  return the same level, warnings, info and recommendations.
\<close>

theorem classify_pure:
  assumes "dom (heap pg1) \<subseteq> {..<nextAddr pg1}" and "dom (heap pg2) \<subseteq> {..<nextAddr pg2}"
    and "heap pg1 p1 = Some (Sample pos1)" and "heap pg2 p2 = Some (Sample pos2)"
    and "position.coords pos1 = position.coords pos2"
    and "(protocol (window pg1) = ''https:'') = (protocol (window pg2) = ''https:'')"
  shows "\<exists>obj1 pg1' obj2 pg2'.
           analyzeLocationAccuracyOn toFixed p1 pg1 = Inr (obj1, pg1') \<and>
           analyzeLocationAccuracyOn toFixed p2 pg2 = Inr (obj2, pg2') \<and>
           readAnalysis obj1 pg1' = readAnalysis obj2 pg2' \<and>
           readAnalysis obj1 pg1' = analyzeLocationAccuracy toFixed (window pg1) pos1 \<and>
           window pg1' = window pg1 \<and> (\<forall>a\<in>dom (heap pg1). heap pg1' a = heap pg1 a) \<and>
           dom (heap pg1') = dom (heap pg1) \<union> {recommendationsAt obj1, warningsAt obj1, infoAt obj1} \<and>
           {recommendationsAt obj1, warningsAt obj1, infoAt obj1} \<inter> dom (heap pg1) = {} \<and>
           dom (heap pg1') \<subseteq> {..<nextAddr pg1'} \<and>
           window pg2' = window pg2 \<and> (\<forall>a\<in>dom (heap pg2). heap pg2' a = heap pg2 a)"
proof -
  from analyzeOn_tracks [OF assms(1,3), of toFixed] obtain obj1 pg1' where
    c1: "analyzeLocationAccuracyOn toFixed p1 pg1 = Inr (obj1, pg1')" and
    t1: "tracks obj1 pg1 pg1' (analyzeLocationAccuracy toFixed (window pg1) pos1)"
    by blast
  from analyzeOn_tracks [OF assms(2,4), of toFixed] obtain obj2 pg2' where
    c2: "analyzeLocationAccuracyOn toFixed p2 pg2 = Inr (obj2, pg2')" and
    t2: "tracks obj2 pg2 pg2' (analyzeLocationAccuracy toFixed (window pg2) pos2)"
    by blast
  have same: "analyzeLocationAccuracy toFixed (window pg1) pos1 =
      analyzeLocationAccuracy toFixed (window pg2) pos2"
    using assms(6,5) by (rule analysis_depends)
  have r1: "readAnalysis obj1 pg1' = analyzeLocationAccuracy toFixed (window pg1) pos1"
    using t1 by (rule tracks_read)
  have r2: "readAnalysis obj2 pg2' = analyzeLocationAccuracy toFixed (window pg2) pos2"
    using t2 by (rule tracks_read)
  have f1: "window pg1' = window pg1" "\<forall>a\<in>dom (heap pg1). heap pg1' a = heap pg1 a"
    "dom (heap pg1') = dom (heap pg1) \<union> {recommendationsAt obj1, warningsAt obj1, infoAt obj1}"
    "{recommendationsAt obj1, warningsAt obj1, infoAt obj1} \<inter> dom (heap pg1) = {}"
    using t1 by (simp_all add: tracks_def)
  have wf: "dom (heap pg1') \<subseteq> {..<nextAddr pg1'}"
  proof -
    have n: "nextAddr pg1' = nextAddr pg1 + 3"
      using t1 by (simp add: tracks_def)
    have "analyzeLocationAccuracyOn toFixed p1 pg1 = Inr (obj1, pg1')"
      by (rule c1)
    then have "recommendationsAt obj1 = nextAddr pg1 \<and> warningsAt obj1 = Suc (nextAddr pg1) \<and>
        infoAt obj1 = Suc (Suc (nextAddr pg1))"
      using assms(3) by (auto simp: analyzeLocationAccuracyOn_def newArray_def Let_def)
    then show ?thesis
      using f1(3) n assms(1) by auto
  qed
  have f2: "window pg2' = window pg2" "\<forall>a\<in>dom (heap pg2). heap pg2' a = heap pg2 a"
    using t2 by (simp_all add: tracks_def)
  show ?thesis
    using c1 c2 r1 r2 same f1 wf f2 by simp
qed

theorem classify_pure_witness:
  "dom (heap \<lparr>window = \<lparr>protocol = ''http:'', hostname = ''localhost''\<rparr>,
        heap = [0 \<mapsto> Sample (positionOf \<lparr>lat = 1, lng = 2, reading.accuracy = 30, reading.timestamp = 5\<rparr>),
                1 \<mapsto> Strings [''kept'']],
        nextAddr = 2\<rparr>) \<subseteq> {..<nextAddr \<lparr>window = \<lparr>protocol = ''http:'', hostname = ''localhost''\<rparr>,
        heap = [0 \<mapsto> Sample (positionOf \<lparr>lat = 1, lng = 2, reading.accuracy = 30, reading.timestamp = 5\<rparr>),
                1 \<mapsto> Strings [''kept'']],
        nextAddr = 2\<rparr>} \<and>
   dom (heap \<lparr>window = \<lparr>protocol = ''file:'', hostname = []\<rparr>,
        heap = [4 \<mapsto> Sample (positionOf \<lparr>lat = 1, lng = 2, reading.accuracy = 30, reading.timestamp = 9\<rparr>)],
        nextAddr = 7\<rparr>) \<subseteq> {..<nextAddr \<lparr>window = \<lparr>protocol = ''file:'', hostname = []\<rparr>,
        heap = [4 \<mapsto> Sample (positionOf \<lparr>lat = 1, lng = 2, reading.accuracy = 30, reading.timestamp = 9\<rparr>)],
        nextAddr = 7\<rparr>} \<and>
   heap \<lparr>window = \<lparr>protocol = ''http:'', hostname = ''localhost''\<rparr>,
        heap = [0 \<mapsto> Sample (positionOf \<lparr>lat = 1, lng = 2, reading.accuracy = 30, reading.timestamp = 5\<rparr>),
                1 \<mapsto> Strings [''kept'']],
        nextAddr = 2\<rparr> 0 = Some (Sample (positionOf \<lparr>lat = 1, lng = 2, reading.accuracy = 30, reading.timestamp = 5\<rparr>)) \<and>
   heap \<lparr>window = \<lparr>protocol = ''file:'', hostname = []\<rparr>,
        heap = [4 \<mapsto> Sample (positionOf \<lparr>lat = 1, lng = 2, reading.accuracy = 30, reading.timestamp = 9\<rparr>)],
        nextAddr = 7\<rparr> 4 = Some (Sample (positionOf \<lparr>lat = 1, lng = 2, reading.accuracy = 30, reading.timestamp = 9\<rparr>)) \<and>
   position.coords (positionOf \<lparr>lat = 1, lng = 2, reading.accuracy = 30, reading.timestamp = 5\<rparr>) = position.coords (positionOf \<lparr>lat = 1, lng = 2, reading.accuracy = 30, reading.timestamp = 9\<rparr>) \<and>
   (\<exists>obj1 pg1' obj2 pg2'.
      analyzeLocationAccuracyOn (\<lambda>x d. []) 0 \<lparr>window = \<lparr>protocol = ''http:'', hostname = ''localhost''\<rparr>,
        heap = [0 \<mapsto> Sample (positionOf \<lparr>lat = 1, lng = 2, reading.accuracy = 30, reading.timestamp = 5\<rparr>),
                1 \<mapsto> Strings [''kept'']],
        nextAddr = 2\<rparr> = Inr (obj1, pg1') \<and>
      analyzeLocationAccuracyOn (\<lambda>x d. []) 4 \<lparr>window = \<lparr>protocol = ''file:'', hostname = []\<rparr>,
        heap = [4 \<mapsto> Sample (positionOf \<lparr>lat = 1, lng = 2, reading.accuracy = 30, reading.timestamp = 9\<rparr>)],
        nextAddr = 7\<rparr> = Inr (obj2, pg2') \<and>
      readAnalysis obj1 pg1' = readAnalysis obj2 pg2' \<and>
      readAnalysis obj1 pg1' =
        analyzeLocationAccuracy (\<lambda>x d. []) (window \<lparr>window = \<lparr>protocol = ''http:'', hostname = ''localhost''\<rparr>,
        heap = [0 \<mapsto> Sample (positionOf \<lparr>lat = 1, lng = 2, reading.accuracy = 30, reading.timestamp = 5\<rparr>),
                1 \<mapsto> Strings [''kept'']],
        nextAddr = 2\<rparr>) (positionOf \<lparr>lat = 1, lng = 2, reading.accuracy = 30, reading.timestamp = 5\<rparr>) \<and>
      window pg1' = window \<lparr>window = \<lparr>protocol = ''http:'', hostname = ''localhost''\<rparr>,
        heap = [0 \<mapsto> Sample (positionOf \<lparr>lat = 1, lng = 2, reading.accuracy = 30, reading.timestamp = 5\<rparr>),
                1 \<mapsto> Strings [''kept'']],
        nextAddr = 2\<rparr> \<and>
      (\<forall>a\<in>dom (heap \<lparr>window = \<lparr>protocol = ''http:'', hostname = ''localhost''\<rparr>,
        heap = [0 \<mapsto> Sample (positionOf \<lparr>lat = 1, lng = 2, reading.accuracy = 30, reading.timestamp = 5\<rparr>),
                1 \<mapsto> Strings [''kept'']],
        nextAddr = 2\<rparr>). heap pg1' a = heap \<lparr>window = \<lparr>protocol = ''http:'', hostname = ''localhost''\<rparr>,
        heap = [0 \<mapsto> Sample (positionOf \<lparr>lat = 1, lng = 2, reading.accuracy = 30, reading.timestamp = 5\<rparr>),
                1 \<mapsto> Strings [''kept'']],
        nextAddr = 2\<rparr> a) \<and>
      dom (heap pg1') =
        dom (heap \<lparr>window = \<lparr>protocol = ''http:'', hostname = ''localhost''\<rparr>,
        heap = [0 \<mapsto> Sample (positionOf \<lparr>lat = 1, lng = 2, reading.accuracy = 30, reading.timestamp = 5\<rparr>),
                1 \<mapsto> Strings [''kept'']],
        nextAddr = 2\<rparr>) \<union> {recommendationsAt obj1, warningsAt obj1, infoAt obj1} \<and>
      {recommendationsAt obj1, warningsAt obj1, infoAt obj1} \<inter> dom (heap \<lparr>window = \<lparr>protocol = ''http:'', hostname = ''localhost''\<rparr>,
        heap = [0 \<mapsto> Sample (positionOf \<lparr>lat = 1, lng = 2, reading.accuracy = 30, reading.timestamp = 5\<rparr>),
                1 \<mapsto> Strings [''kept'']],
        nextAddr = 2\<rparr>) = {} \<and>
      dom (heap pg1') \<subseteq> {..<nextAddr pg1'} \<and>
      window pg2' = window \<lparr>window = \<lparr>protocol = ''file:'', hostname = []\<rparr>,
        heap = [4 \<mapsto> Sample (positionOf \<lparr>lat = 1, lng = 2, reading.accuracy = 30, reading.timestamp = 9\<rparr>)],
        nextAddr = 7\<rparr> \<and>
      (\<forall>a\<in>dom (heap \<lparr>window = \<lparr>protocol = ''file:'', hostname = []\<rparr>,
        heap = [4 \<mapsto> Sample (positionOf \<lparr>lat = 1, lng = 2, reading.accuracy = 30, reading.timestamp = 9\<rparr>)],
        nextAddr = 7\<rparr>). heap pg2' a = heap \<lparr>window = \<lparr>protocol = ''file:'', hostname = []\<rparr>,
        heap = [4 \<mapsto> Sample (positionOf \<lparr>lat = 1, lng = 2, reading.accuracy = 30, reading.timestamp = 9\<rparr>)],
        nextAddr = 7\<rparr> a))"
proof -
  let ?A = "\<lparr>window = \<lparr>protocol = ''http:'', hostname = ''localhost''\<rparr>,
        heap = [0 \<mapsto> Sample (positionOf \<lparr>lat = 1, lng = 2, reading.accuracy = 30, reading.timestamp = 5\<rparr>),
                1 \<mapsto> Strings [''kept'']],
        nextAddr = 2\<rparr>"
  let ?B = "\<lparr>window = \<lparr>protocol = ''file:'', hostname = []\<rparr>,
        heap = [4 \<mapsto> Sample (positionOf \<lparr>lat = 1, lng = 2, reading.accuracy = 30, reading.timestamp = 9\<rparr>)],
        nextAddr = 7\<rparr>"
  have h1: "dom (heap ?A) \<subseteq> {..<nextAddr ?A}"
    by simp
  have h2: "dom (heap ?B) \<subseteq> {..<nextAddr ?B}"
    by simp
  have h3: "heap ?A 0 = Some (Sample (positionOf \<lparr>lat = 1, lng = 2, reading.accuracy = 30, reading.timestamp = 5\<rparr>))"
    by simp
  have h4: "heap ?B 4 = Some (Sample (positionOf \<lparr>lat = 1, lng = 2, reading.accuracy = 30, reading.timestamp = 9\<rparr>))"
    by simp
  have c: "position.coords (positionOf \<lparr>lat = 1, lng = 2, reading.accuracy = 30, reading.timestamp = 5\<rparr>) = position.coords (positionOf \<lparr>lat = 1, lng = 2, reading.accuracy = 30, reading.timestamp = 9\<rparr>)"
    by (simp add: positionOf_def)
  have b: "(protocol (window ?A) = ''https:'') = (protocol (window ?B) = ''https:'')"
    by simp
  note e = classify_pure [OF h1 h2 h3 h4 c b, of "\<lambda>x d. []"]
  show ?thesis
    by (intro conjI h1 h2 h3 h4 c e)
qed

section \<open>Properties of the position source\<close>

text \<open>
  C3, as amended. Every failure the platform reports is paired with one fixed message per
  kind within each channel, the message of the platform being dropped: the one-shot
  request rejects with the four texts of its own, the watch hands its error callback
  four other texts. The two channels do not share their texts.
\<close>

theorem error_messages:
  assumes "geolocation nav \<noteq> None"
  shows "requestLocationPermission nav (Some (Failure e)) =
           Rejected (Error
             (case kindOf e of
                PermissionDenied \<Rightarrow>
                  ''Location access denied. Please click 'Allow' when prompted, or enable location services in your browser settings.''
              | PositionUnavailable \<Rightarrow>
                  ''Location information is unavailable. Please check your GPS settings and ensure location services are enabled.''
              | Timeout \<Rightarrow> ''Location request timed out. Please try again.''
              | Unknown \<Rightarrow> ''An unknown error occurred while retrieving location.'')) \<and>
         watchHandlers callback errorCallback (Failure e) st =
           errorCallback (Error
             (case kindOf e of
                PermissionDenied \<Rightarrow> ''Location access denied. Please enable location services.''
              | PositionUnavailable \<Rightarrow>
                  ''Location information is unavailable. Please check your GPS settings.''
              | Timeout \<Rightarrow> ''Location request timed out.''
              | Unknown \<Rightarrow> ''An unknown error occurred while tracking location.'')) st"
  using assms
  by (simp add: requestLocationPermission_def requestErrorMessage_def watchHandlers_def
      watchErrorMessage_def kindOf_def)

theorem error_messages_witness:
  "geolocation \<lparr>geolocation = Some \<lparr>watches = [], lastId = 0, calls = []\<rparr>\<rparr> \<noteq> None \<and>
   requestLocationPermission \<lparr>geolocation = Some \<lparr>watches = [], lastId = 0, calls = []\<rparr>\<rparr>
     (Some (Failure \<lparr>code = 3, message = ''Timeout expired''\<rparr>)) =
     Rejected (Error ''Location request timed out. Please try again.'') \<and>
   watchHandlers (\<lambda>u log. log) (\<lambda>err log. log @ [err])
     (Failure \<lparr>code = 3, message = ''Timeout expired''\<rparr>) [] =
     [Error ''Location request timed out.'']"
  using error_messages [of "\<lparr>geolocation = Some \<lparr>watches = [], lastId = 0, calls = []\<rparr>\<rparr>"
      "\<lparr>code = 3, message = ''Timeout expired''\<rparr>" "\<lambda>u log. log" "\<lambda>err log. log @ [err]" "[]"]
  by (simp add: kindOf_def PERMISSION_DENIED_def POSITION_UNAVAILABLE_def TIMEOUT_def)

text \<open>C3 as it was stated fails: for a denied permission neither channel gives the text
  \<open>Location access denied. Please allow location access or enable location services.\<close>,
  and the two channels give different texts.\<close>

theorem permission_denied_counterexample:
  "requestLocationPermission \<lparr>geolocation = Some \<lparr>watches = [], lastId = 0, calls = []\<rparr>\<rparr>
     (Some (Failure \<lparr>code = 1, message = []\<rparr>)) \<noteq>
     Rejected (Error ''Location access denied. Please allow location access or enable location services.'') \<and>
   watchHandlers (\<lambda>u log. log) (\<lambda>err log. log @ [err]) (Failure \<lparr>code = 1, message = []\<rparr>) [] \<noteq>
     [Error ''Location access denied. Please allow location access or enable location services.''] \<and>
   requestErrorMessage \<lparr>code = 1, message = []\<rparr> \<noteq> watchErrorMessage \<lparr>code = 1, message = []\<rparr>"
  by (simp add: requestLocationPermission_def requestErrorMessage_def watchHandlers_def
      watchErrorMessage_def PERMISSION_DENIED_def)

lemma subscriptions_clearWatch:
  "clearWatch h nav = Inr nav' \<Longrightarrow>
     subscriptions nav' = (if truthy h then removeAll (the h) (subscriptions nav) else subscriptions nav)"
  by (auto simp: clearWatch_def subscriptions_def split: option.splits if_splits)

lemma clearWatch_geolocation:
  "clearWatch h nav = Inr nav' \<Longrightarrow> (geolocation nav' = None) = (geolocation nav = None)"
  by (auto simp: clearWatch_def split: option.splits if_splits)

lemma clearWatch_defined:
  "geolocation nav \<noteq> None \<Longrightarrow> \<exists>nav'. clearWatch h nav = Inr nav'"
  by (auto simp: clearWatch_def split: option.splits)

text \<open>
  C8. Without the capability \<^verbatim>\<open>watchPosition\<close> does not throw: it returns \<^verbatim>\<open>null\<close>,
  leaves the platform alone and runs the error callback once. \<^verbatim>\<open>clearWatch\<close> with
  \<^verbatim>\<open>null\<close> makes no call on the platform and returns; with an identifier that names no
  active subscription it returns and cancels nothing; and a second call with the same
  identifier cancels nothing more.
\<close>

theorem watch_never_throws:
  "(geolocation nav = None \<longrightarrow>
      watchPosition errorCallback nav st =
        (None, nav, errorCallback (Error ''Geolocation is not supported by this browser'') st)) \<and>
   clearWatch None nav = Inr nav \<and>
   (geolocation nav \<noteq> None \<and> wid \<notin> set (subscriptions nav) \<longrightarrow>
      (\<exists>nav'. clearWatch (Some wid) nav = Inr nav' \<and> subscriptions nav' = subscriptions nav)) \<and>
   (clearWatch h nav = Inr nav' \<longrightarrow>
      (\<exists>nav''. clearWatch h nav' = Inr nav'' \<and> subscriptions nav'' = subscriptions nav'))"
proof (intro conjI impI)
  assume "geolocation nav = None"
  then show "watchPosition errorCallback nav st =
        (None, nav, errorCallback (Error ''Geolocation is not supported by this browser'') st)"
    by (simp add: watchPosition_def)
next
  show "clearWatch None nav = Inr nav"
    by (simp add: clearWatch_def)
next
  assume a: "geolocation nav \<noteq> None \<and> wid \<notin> set (subscriptions nav)"
  then obtain nav' where n: "clearWatch (Some wid) nav = Inr nav'"
    using clearWatch_defined by blast
  have "subscriptions nav' = subscriptions nav"
    using subscriptions_clearWatch [OF n] a by simp
  with n show "\<exists>nav'. clearWatch (Some wid) nav = Inr nav' \<and> subscriptions nav' = subscriptions nav"
    by blast
next
  assume c: "clearWatch h nav = Inr nav'"
  show "\<exists>nav''. clearWatch h nav' = Inr nav'' \<and> subscriptions nav'' = subscriptions nav'"
  proof (cases "truthy h")
    case False
    then have "clearWatch h nav' = Inr nav'"
      by (cases h) (simp_all add: clearWatch_def)
    then show ?thesis by simp
  next
    case True
    then have "geolocation nav \<noteq> None"
      using c by (auto simp: clearWatch_def split: option.splits)
    then have "geolocation nav' \<noteq> None"
      using clearWatch_geolocation [OF c] by simp
    then obtain nav'' where n: "clearWatch h nav' = Inr nav''"
      using clearWatch_defined by blast
    have "subscriptions nav'' = subscriptions nav'"
      using subscriptions_clearWatch [OF n] subscriptions_clearWatch [OF c] True by simp
    with n show ?thesis by blast
  qed
qed

theorem watch_never_throws_witness:
  "watchPosition (\<lambda>err n. Suc n) \<lparr>geolocation = None\<rparr> (0::nat) = (None, \<lparr>geolocation = None\<rparr>, 1) \<and>
   clearWatch None \<lparr>geolocation = None\<rparr> = Inr \<lparr>geolocation = None\<rparr> \<and>
   (\<exists>nav'. clearWatch (Some 7) \<lparr>geolocation = Some \<lparr>watches = [8], lastId = 8, calls = []\<rparr>\<rparr> = Inr nav'
      \<and> subscriptions nav' = [8]) \<and>
   (\<exists>nav''. clearWatch (Some 7) \<lparr>geolocation = Some \<lparr>watches = [8], lastId = 8, calls = [ClearWatch 7]\<rparr>\<rparr>
        = Inr nav'' \<and> subscriptions nav'' = [8])"
  using watch_never_throws [of "\<lparr>geolocation = None\<rparr>" "\<lambda>err n. Suc n" "0::nat" 7 None "\<lparr>geolocation = None\<rparr>"]
    watch_never_throws [of "\<lparr>geolocation = Some \<lparr>watches = [8], lastId = 8, calls = []\<rparr>\<rparr>"
      "\<lambda>err n. Suc n" "0::nat" 7 "Some 7"
      "\<lparr>geolocation = Some \<lparr>watches = [8], lastId = 8, calls = [ClearWatch 7]\<rparr>\<rparr>"]
  by (simp add: subscriptions_def clearWatch_def)


section \<open>Properties of the tracking session\<close>

lemma start_active:
  "truthy c \<Longrightarrow> startAutoTracking c (v, nav) = (Undefined, v, nav)"
  by (simp add: startAutoTracking_def)

lemma stop_idle:
  "\<not> truthy c \<Longrightarrow> stopAutoTracking c (v, nav) = Inr (Undefined, v, nav)"
  by (simp add: stopAutoTracking_def)

lemma start_preserves:
  assumes "oneSubscription (v, nav)"
  shows "oneSubscription (snd (startAutoTracking (watchId v) (v, nav)))"
proof (cases "truthy (watchId v)")
  case True
  then show ?thesis using assms by (simp add: start_active)
next
  case False
  then have idle: "watchId v = None"
    using assms by (cases "watchId v") (simp_all add: oneSubscription_def)
  then have "subscriptions nav = []"
    using assms by (simp add: oneSubscription_def)
  then show ?thesis
    using idle
    by (cases "geolocation nav")
      (simp_all add: startAutoTracking_def watchPosition_def oneSubscription_def
        subscriptions_def Let_def)
qed

lemma stop_preserves:
  assumes "oneSubscription (v, nav)"
  shows "\<exists>w'. stopAutoTracking (watchId v) (v, nav) = Inr (Undefined, w') \<and> oneSubscription w'"
proof (cases "watchId v")
  case None
  then show ?thesis using assms by (simp add: stopAutoTracking_def)
next
  case (Some wid)
  then have s: "subscriptions nav = [wid]" and nz: "wid \<noteq> 0"
    using assms by (simp_all add: oneSubscription_def)
  from s obtain g where g: "geolocation nav = Some g" "watches g = [wid]"
    by (cases "geolocation nav") (simp_all add: subscriptions_def)
  show ?thesis
    using Some nz g
    by (simp add: stopAutoTracking_def clearWatch_def oneSubscription_def subscriptions_def)
qed

lemma perform_preserves:
  assumes "oneSubscription w" and "closure c = watchId (fst w)"
  shows "\<exists>w'. perform c w = Inr w' \<and> oneSubscription w'"
proof (cases w)
  case (Pair v nav)
  show ?thesis
  proof (cases c)
    case (Start x)
    then show ?thesis
      using start_preserves [of v nav] assms Pair by simp
  next
    case (Stop x)
    from stop_preserves [of v nav] assms(1) Pair
    obtain w' where "stopAutoTracking (watchId v) (v, nav) = Inr (Undefined, w')" "oneSubscription w'"
      by blast
    then show ?thesis
      using Stop assms(2) Pair by simp
  qed
qed

lemma run_preserves:
  "oneSubscription w \<Longrightarrow> current cs w \<Longrightarrow> \<exists>w'. run cs w = Inr w' \<and> oneSubscription w'"
proof (induction cs arbitrary: w)
  case Nil
  then show ?case by simp
next
  case (Cons c cs)
  from Cons.prems(2) have cl: "closure c = watchId (fst w)"
    by simp
  from perform_preserves [OF Cons.prems(1) cl]
  obtain w1 where w1: "perform c w = Inr w1" "oneSubscription w1" by blast
  from Cons.prems(2) w1(1) have "current cs w1"
    by simp
  from Cons.IH [OF w1(2) this] w1(1) show ?case by simp
qed

text \<open>
  C7, as amended. From the mounted component, on a platform that holds no subscription
  for it, every sequence of starts and stops made through the handlers of the latest
  render runs without a throw and ends in a state where the platform holds at most one
  subscription, the one whose identifier the component keeps. There a start while an
  identifier is kept returns nothing and changes nothing (the identifier stays in
  \<^verbatim>\<open>watchId\<close>, no second subscription, no call on the platform), and a stop while
  none is kept returns nothing and changes nothing.
\<close>

theorem tracking_session:
  assumes "subscriptions nav0 = []" and "current cs (initialView, nav0)"
  shows "\<exists>v nav. run cs (initialView, nav0) = Inr (v, nav) \<and>
           length (subscriptions nav) \<le> 1 \<and>
           subscriptions nav = (case watchId v of None \<Rightarrow> [] | Some wid \<Rightarrow> [wid]) \<and>
           (truthy (watchId v) \<longrightarrow>
              startAutoTracking (watchId v) (v, nav) = (Undefined, v, nav)) \<and>
           (\<not> truthy (watchId v) \<longrightarrow>
              stopAutoTracking (watchId v) (v, nav) = Inr (Undefined, v, nav))"
proof -
  have "oneSubscription (initialView, nav0)"
    using assms(1) by (simp add: oneSubscription_def initialView_def)
  from run_preserves [OF this assms(2)]
  obtain v nav where r: "run cs (initialView, nav0) = Inr (v, nav)" and i: "oneSubscription (v, nav)"
    by (metis surj_pair)
  have s: "subscriptions nav = (case watchId v of None \<Rightarrow> [] | Some wid \<Rightarrow> [wid])"
    using i by (simp add: oneSubscription_def split: option.splits)
  then have l: "length (subscriptions nav) \<le> 1"
    by (simp split: option.splits)
  show ?thesis
    using r s l by (simp add: start_active stop_idle)
qed

theorem tracking_session_witness:
  "subscriptions \<lparr>geolocation = Some \<lparr>watches = [], lastId = 4, calls = []\<rparr>\<rparr> = [] \<and>
   current [Start None, Start (Some 5)]
     (initialView, \<lparr>geolocation = Some \<lparr>watches = [], lastId = 4, calls = []\<rparr>\<rparr>) \<and>
   (\<exists>v nav. run [Start None, Start (Some 5)]
         (initialView, \<lparr>geolocation = Some \<lparr>watches = [], lastId = 4, calls = []\<rparr>\<rparr>) = Inr (v, nav) \<and>
       watchId v = Some 5 \<and> subscriptions nav = [5] \<and>
       startAutoTracking (Some 5) (v, nav) = (Undefined, v, nav)) \<and>
   current [Start None, Stop (Some 5), Stop None]
     (initialView, \<lparr>geolocation = Some \<lparr>watches = [], lastId = 4, calls = []\<rparr>\<rparr>) \<and>
   (\<exists>v nav. run [Start None, Stop (Some 5), Stop None]
         (initialView, \<lparr>geolocation = Some \<lparr>watches = [], lastId = 4, calls = []\<rparr>\<rparr>) = Inr (v, nav) \<and>
       watchId v = None \<and> subscriptions nav = [] \<and>
       stopAutoTracking None (v, nav) = Inr (Undefined, v, nav))"
  using tracking_session [of "\<lparr>geolocation = Some \<lparr>watches = [], lastId = 4, calls = []\<rparr>\<rparr>"
      "[Start None, Start (Some 5)]"]
    tracking_session [of "\<lparr>geolocation = Some \<lparr>watches = [], lastId = 4, calls = []\<rparr>\<rparr>"
      "[Start None, Stop (Some 5), Stop None]"]
  by (simp add: subscriptions_def initialView_def startAutoTracking_def stopAutoTracking_def
      watchPosition_def clearWatch_def Let_def)

text \<open>
  C7 as it was stated fails. A start while an identifier is kept does not return that
  identifier: it returns nothing. And not every sequence of starts and stops keeps the
  platform to one subscription: the component starts (subscription 1) and a deletion is
  begun; the user stops and starts again (subscription 2); the stop of the deletion, made
  by the render that kept 1, clears 1 again and empties \<^verbatim>\<open>watchId\<close>; the next start
  makes subscription 3 while 2 is still active.
\<close>

theorem stale_stop_counterexample:
  "fst (startAutoTracking (Some 1)
         (\<lparr>watchId = Some 1, isTracking = True, locationStatus = ''Starting auto-tracking...'',
            error = None\<rparr>,
          \<lparr>geolocation = Some \<lparr>watches = [1], lastId = 1, calls = [WatchPosition watchOptions]\<rparr>\<rparr>))
     \<noteq> Handle 1 \<and>
   map_sum id (\<lambda>w. (watchId (fst w), subscriptions (snd w)))
     (run [Start None, Stop (Some 1), Start None, Stop (Some 1), Start None]
        (initialView, \<lparr>geolocation = Some \<lparr>watches = [], lastId = 0, calls = []\<rparr>\<rparr>)) = Inr (Some 3, [2, 3])"
  by (simp add: subscriptions_def initialView_def startAutoTracking_def stopAutoTracking_def
      watchPosition_def clearWatch_def Let_def)

section \<open>Properties of the averaged readings\<close>

lemma plus64_zero [simp]: "plus64 ar 0 x = x"
  by transfer auto

lemma divide64_one [simp]: "divide64 ar x 1 = x"
  by transfer auto

lemma plus64_unrounded [simp]: "plus64 unrounded x y = x + y"
  by transfer simp

lemma divide64_unrounded [simp]: "divide64 unrounded x y = x / y"
  by transfer simp

lemma foldl_plus: "foldl (+) a xs = a + sum_list xs" for a :: real
  by (induction xs arbitrary: a) (simp_all add: add.assoc)

text \<open>Where nothing is rounded, the mean computed is the arithmetic mean.\<close>

lemma mean64_unrounded: "mean64 unrounded xs = mean xs"
proof -
  have "plus64 unrounded = (+)"
    by (intro ext) simp
  then show ?thesis
    by (simp add: mean64_def sum64_def mean_def foldl_plus)
qed

lemma average_mean:
  "average ar now (map toReading ps) =
     \<lparr> lat = mean64 ar (map (\<lambda>p. latitude (position.coords p)) ps),
       lng = mean64 ar (map (\<lambda>p. longitude (position.coords p)) ps),
       reading.accuracy = mean64 ar (map (\<lambda>p. coords.accuracy (position.coords p)) ps),
       reading.timestamp = now,
       readings = map toReading ps \<rparr>"
  by (simp add: average_def mean64_def sum64_def foldl_map toReading_def comp_def)

lemma queries_simps [simp]:
  "queries [] = 0"
  "queries (GetCurrentPosition opts # effects) = Suc (queries effects)"
  "queries (SetTimeout i # effects) = queries effects"
  by (simp_all add: queries_def)

lemma getReading_success:
  assumes "ps \<noteq> []"
    and "count \<le> real (currentCount + length ps)"
    and "length ps = 1 \<or> real (currentCount + length ps) - 1 < count"
  shows "\<exists>effects.
           getReading ar count interval now rs currentCount (map Success ps @ rest) =
             (Resolved (average ar now (rs @ map toReading ps)), effects) \<and>
           queries effects = length ps"
  using assms
proof (induction ps arbitrary: rs currentCount)
  case Nil
  then show ?case by simp
next
  case (Cons p ps)
  show ?case
  proof (cases "ps = []")
    case True
    with Cons.prems show ?thesis by (simp add: Let_def)
  next
    case False
    then have len: "0 < length ps" by simp
    have len': "1 \<le> real (length ps)" using False by (cases ps) simp_all
    have "length (p # ps) \<noteq> 1" using len by simp
    with Cons.prems(3) have "real (currentCount + length (p # ps)) - 1 < count" by blast
    with len' have more: "\<not> count \<le> real (currentCount + 1)"
      by simp
    have "\<exists>effects.
           getReading ar count interval now (rs @ [toReading p]) (currentCount + 1) (map Success ps @ rest) =
             (Resolved (average ar now ((rs @ [toReading p]) @ map toReading ps)), effects) \<and>
           queries effects = length ps"
    proof (rule Cons.IH [OF False])
      show "count \<le> real (currentCount + 1 + length ps)"
        using Cons.prems(2) by (simp add: add.commute add.left_commute)
      show "length ps = 1 \<or> real (currentCount + 1 + length ps) - 1 < count"
        using Cons.prems(3) len by auto
    qed
    then obtain effects where
      e: "getReading ar count interval now (rs @ [toReading p]) (currentCount + 1) (map Success ps @ rest) =
             (Resolved (average ar now ((rs @ [toReading p]) @ map toReading ps)), effects)"
        "queries effects = length ps"
      by blast
    show ?thesis
      using more e by (simp add: Let_def)
  qed
qed

lemma getReading_resolved:
  assumes "getReading ar count interval now rs currentCount answers = (Resolved r, effects)"
  shows "\<exists>ps rest. answers = map Success ps @ rest \<and> ps \<noteq> [] \<and>
           count \<le> real (currentCount + length ps) \<and>
           (length ps = 1 \<or> real (currentCount + length ps) - 1 < count) \<and>
           r = average ar now (rs @ map toReading ps) \<and> queries effects = length ps"
  using assms
proof (induction answers arbitrary: rs currentCount effects)
  case Nil
  then show ?case by simp
next
  case (Cons a answers)
  show ?case
  proof (cases a)
    case (Failure e)
    with Cons.prems show ?thesis by simp
  next
    case (Success p)
    show ?thesis
    proof (cases "count \<le> real (currentCount + 1)")
      case True
      with Cons.prems Success
      have "r = average ar now (rs @ map toReading [p])" "queries effects = length [p]"
        by (auto simp: Let_def)
      with True Success show ?thesis
        by (intro exI [of _ "[p]"] exI [of _ answers]) simp
    next
      case False
      with Cons.prems Success obtain effects' where
        rec: "getReading ar count interval now (rs @ [toReading p]) (currentCount + 1) answers = (Resolved r, effects')"
        and eff: "effects = GetCurrentPosition oneShotOptions # SetTimeout interval # effects'"
        by (auto simp: Let_def split: prod.splits)
      from Cons.IH [OF rec] obtain ps rest where
        ih: "answers = map Success ps @ rest" "ps \<noteq> []"
          "count \<le> real (currentCount + 1 + length ps)"
          "length ps = 1 \<or> real (currentCount + 1 + length ps) - 1 < count"
          "r = average ar now ((rs @ [toReading p]) @ map toReading ps)"
          "queries effects' = length ps"
        by blast
      have bound: "real (currentCount + length (p # ps)) - 1 < count"
        using ih(4) False by auto
      show ?thesis
        using ih Success eff bound
        by (intro exI [of _ "p # ps"] exI [of _ rest]) (simp add: add.commute add.left_commute)
    qed
  qed
qed

lemma getReading_failure:
  assumes "ps = [] \<or> real (currentCount + length ps) < count"
  shows "\<exists>effects.
           getReading ar count interval now rs currentCount (map Success ps @ Failure e # rest) =
             (Rejected (PositionError e), effects) \<and>
           queries effects = length ps + 1"
  using assms
proof (induction ps arbitrary: rs currentCount)
  case Nil
  then show ?case by simp
next
  case (Cons p ps)
  then have more: "\<not> count \<le> real (currentCount + 1)"
    by auto
  have "ps = [] \<or> real (currentCount + 1 + length ps) < count"
    using Cons.prems by (auto simp: add.commute add.left_commute)
  from Cons.IH [OF this, of "rs @ [toReading p]"] obtain effects where
    e: "getReading ar count interval now (rs @ [toReading p]) (currentCount + 1)
          (map Success ps @ Failure e # rest) = (Rejected (PositionError e), effects)"
       "queries effects = length ps + 1"
    by blast
  show ?case
    using more e by (simp add: Let_def)
qed

lemma samplesTaken_bounds:
  "count \<le> real (samplesTaken count)"
  "samplesTaken count = 1 \<or> real (samplesTaken count) - 1 < count"
  "0 < samplesTaken count"
  by (auto simp: samplesTaken_def) linarith+

lemma samplesTaken_unique:
  assumes "0 < n" "count \<le> real n" "n = 1 \<or> real n - 1 < count"
  shows "n = samplesTaken count"
proof (cases "count \<le> 1")
  case True
  with assms show ?thesis by (auto simp: samplesTaken_def)
next
  case False
  with assms have "real n - 1 < count" by auto
  then have "\<lceil>count\<rceil> = int n"
    using assms(2) by (intro ceiling_unique) simp_all
  with False show ?thesis by (simp add: samplesTaken_def)
qed


text \<open>
  C4, as amended. On a platform with the capability, a run resolves exactly when the
  platform answers the first \<open>samplesTaken count\<close> queries with a position (count 3
  when left out). Then latitude, longitude and accuracy of the result are each the
  binary64 sum of those of the positions, added from 0 in the order they came, divided
  in binary64 by their number: the arithmetic mean up to the rounding of each step. The
  readings are all the positions in the order they came, and as many queries were made.
  Their number is count when count is a whole number of at least one.
\<close>

theorem averaged_readings:
  assumes "geolocation nav \<noteq> None"
  shows "(length ps = samplesTaken (withDefault 3 count) \<longrightarrow>
           (\<exists>effects.
              getMultipleReadings ar nav now count interval (map Success ps @ rest) =
                (Resolved
                   \<lparr> lat = mean64 ar (map (\<lambda>p. latitude (position.coords p)) ps),
                     lng = mean64 ar (map (\<lambda>p. longitude (position.coords p)) ps),
                     reading.accuracy = mean64 ar (map (\<lambda>p. coords.accuracy (position.coords p)) ps),
                     reading.timestamp = now,
                     readings = map toReading ps \<rparr>, effects) \<and>
              queries effects = length ps)) \<and>
         (getMultipleReadings ar nav now count interval answers = (Resolved r, effects') \<longrightarrow>
           (\<exists>qs rest'. answers = map Success qs @ rest' \<and>
              length qs = samplesTaken (withDefault 3 count) \<and>
              r = \<lparr> lat = mean64 ar (map (\<lambda>p. latitude (position.coords p)) qs),
                    lng = mean64 ar (map (\<lambda>p. longitude (position.coords p)) qs),
                    reading.accuracy = mean64 ar (map (\<lambda>p. coords.accuracy (position.coords p)) qs),
                    reading.timestamp = now,
                    readings = map toReading qs \<rparr>)) \<and>
         (1 \<le> k \<longrightarrow> samplesTaken (real k) = k) \<and>
         samplesTaken (withDefault 3 None) = 3"
proof (intro conjI impI)
  let ?c = "withDefault 3 count"
  assume len: "length ps = samplesTaken ?c"
  have "ps \<noteq> []"
    using len samplesTaken_bounds(3) [of ?c] by auto
  moreover have "?c \<le> real (0 + length ps)"
    using len samplesTaken_bounds(1) [of ?c] by simp
  moreover have "length ps = 1 \<or> real (0 + length ps) - 1 < ?c"
    using len samplesTaken_bounds(2) [of ?c] by simp
  ultimately obtain effects where
    "getReading ar ?c (withDefault 2000 interval) now [] 0 (map Success ps @ rest) =
       (Resolved (average ar now ([] @ map toReading ps)), effects)"
    "queries effects = length ps"
    using getReading_success by blast
  then show "\<exists>effects.
      getMultipleReadings ar nav now count interval (map Success ps @ rest) =
        (Resolved
           \<lparr> lat = mean64 ar (map (\<lambda>p. latitude (position.coords p)) ps),
             lng = mean64 ar (map (\<lambda>p. longitude (position.coords p)) ps),
             reading.accuracy = mean64 ar (map (\<lambda>p. coords.accuracy (position.coords p)) ps),
             reading.timestamp = now,
             readings = map toReading ps \<rparr>, effects) \<and>
      queries effects = length ps"
    using assms by (simp add: getMultipleReadings_def average_mean)
next
  let ?c = "withDefault 3 count"
  assume "getMultipleReadings ar nav now count interval answers = (Resolved r, effects')"
  then have "getReading ar ?c (withDefault 2000 interval) now [] 0 answers = (Resolved r, effects')"
    using assms by (simp add: getMultipleReadings_def)
  from getReading_resolved [OF this] obtain qs rest' where
    q: "answers = map Success qs @ rest'" "qs \<noteq> []" "?c \<le> real (0 + length qs)"
      "length qs = 1 \<or> real (0 + length qs) - 1 < ?c"
      "r = average ar now ([] @ map toReading qs)"
    by blast
  have "length qs = samplesTaken ?c"
    using q(2-4) by (intro samplesTaken_unique) simp_all
  with q(1,5) show "\<exists>qs rest'. answers = map Success qs @ rest' \<and>
      length qs = samplesTaken ?c \<and>
      r = \<lparr> lat = mean64 ar (map (\<lambda>p. latitude (position.coords p)) qs),
            lng = mean64 ar (map (\<lambda>p. longitude (position.coords p)) qs),
            reading.accuracy = mean64 ar (map (\<lambda>p. coords.accuracy (position.coords p)) qs),
            reading.timestamp = now,
            readings = map toReading qs \<rparr>"
    by (auto simp: average_mean)
next
  assume "1 \<le> k"
  then show "samplesTaken (real k) = k"
    by (auto simp: samplesTaken_def)
next
  show "samplesTaken (withDefault 3 None) = 3"
    by (simp add: samplesTaken_def)
qed


theorem averaged_readings_witness:
  "geolocation \<lparr>geolocation = Some \<lparr>watches = [], lastId = 0, calls = []\<rparr>\<rparr> \<noteq> None \<and>
   length [(positionOf \<lparr>lat = 10, lng = 20, reading.accuracy = 5, reading.timestamp = 1\<rparr>),
           (positionOf \<lparr>lat = 12, lng = 22, reading.accuracy = 7, reading.timestamp = 2\<rparr>),
           (positionOf \<lparr>lat = 14, lng = 24, reading.accuracy = 6, reading.timestamp = 3\<rparr>)] = samplesTaken (withDefault 3 None) \<and>
   getMultipleReadings unrounded \<lparr>geolocation = Some \<lparr>watches = [], lastId = 0, calls = []\<rparr>\<rparr> 99 None None
       [Success (positionOf \<lparr>lat = 10, lng = 20, reading.accuracy = 5, reading.timestamp = 1\<rparr>),
        Success (positionOf \<lparr>lat = 12, lng = 22, reading.accuracy = 7, reading.timestamp = 2\<rparr>),
        Success (positionOf \<lparr>lat = 14, lng = 24, reading.accuracy = 6, reading.timestamp = 3\<rparr>)] =
     (Resolved
        \<lparr>lat = 12, lng = 22, reading.accuracy = 6, reading.timestamp = 99,
           readings =
             [\<lparr>lat = 10, lng = 20, reading.accuracy = 5, reading.timestamp = 1\<rparr>,
              \<lparr>lat = 12, lng = 22, reading.accuracy = 7, reading.timestamp = 2\<rparr>,
              \<lparr>lat = 14, lng = 24, reading.accuracy = 6, reading.timestamp = 3\<rparr>]\<rparr>,
      [GetCurrentPosition oneShotOptions, SetTimeout 2000,
       GetCurrentPosition oneShotOptions, SetTimeout 2000,
       GetCurrentPosition oneShotOptions]) \<and>
   (\<exists>qs rest'.
      [Success (positionOf \<lparr>lat = 10, lng = 20, reading.accuracy = 5, reading.timestamp = 1\<rparr>),
       Success (positionOf \<lparr>lat = 12, lng = 22, reading.accuracy = 7, reading.timestamp = 2\<rparr>),
       Success (positionOf \<lparr>lat = 14, lng = 24, reading.accuracy = 6, reading.timestamp = 3\<rparr>)] = map Success qs @ rest' \<and>
      length qs = 3)"
proof -
  let ?nav = "\<lparr>geolocation = Some \<lparr>watches = [], lastId = 0, calls = []\<rparr>\<rparr>"
  let ?ps = "[(positionOf \<lparr>lat = 10, lng = 20, reading.accuracy = 5, reading.timestamp = 1\<rparr>),
              (positionOf \<lparr>lat = 12, lng = 22, reading.accuracy = 7, reading.timestamp = 2\<rparr>),
              (positionOf \<lparr>lat = 14, lng = 24, reading.accuracy = 6, reading.timestamp = 3\<rparr>)]"
  let ?r = "\<lparr>lat = 12, lng = 22, reading.accuracy = 6, reading.timestamp = 99,
             readings =
               [\<lparr>lat = 10, lng = 20, reading.accuracy = 5, reading.timestamp = 1\<rparr>,
                \<lparr>lat = 12, lng = 22, reading.accuracy = 7, reading.timestamp = 2\<rparr>,
                \<lparr>lat = 14, lng = 24, reading.accuracy = 6, reading.timestamp = 3\<rparr>]\<rparr>"
  let ?effects = "[GetCurrentPosition oneShotOptions, SetTimeout 2000,
                   GetCurrentPosition oneShotOptions, SetTimeout 2000,
                   GetCurrentPosition oneShotOptions]"
  have ev: "getMultipleReadings unrounded ?nav 99 None None (map Success ?ps) = (Resolved ?r, ?effects)"
    by (simp add: getMultipleReadings_def average_def toReading_def positionOf_def samplesTaken_def queries_def Let_def)
  have cap: "geolocation ?nav \<noteq> None"
    by simp
  have three: "samplesTaken (withDefault 3 None) = 3"
    by (simp add: samplesTaken_def)
  from averaged_readings [OF cap, where ps = ?ps and count = None and ar = unrounded and now = 99
      and interval = None and rest = "[]" and answers = "map Success ?ps" and r = ?r
      and effects' = ?effects and k = 3] ev three
  have "\<exists>qs rest'. map Success ?ps = map Success qs @ rest' \<and> length qs = 3"
    by auto
  then show ?thesis
    using ev cap three by simp
qed

text \<open>
  C4 as it was stated fails for a count of zero: the run succeeds with one reading, not
  with count readings. (With one reading the average is that reading in every
  arithmetic.)
\<close>

theorem zero_count_counterexample:
  "getMultipleReadings unrounded \<lparr>geolocation = Some \<lparr>watches = [], lastId = 0, calls = []\<rparr>\<rparr> 99 (Some 0) None
       [Success (positionOf \<lparr>lat = 10, lng = 20, reading.accuracy = 5, reading.timestamp = 1\<rparr>)] =
     (Resolved
        \<lparr>lat = 10, lng = 20, reading.accuracy = 5, reading.timestamp = 99,
           readings = [\<lparr>lat = 10, lng = 20, reading.accuracy = 5, reading.timestamp = 1\<rparr>]\<rparr>,
      [GetCurrentPosition oneShotOptions]) \<and>
   real (length (readings
        \<lparr>lat = 10, lng = 20, reading.accuracy = 5, reading.timestamp = 99,
           readings = [\<lparr>lat = 10, lng = 20, reading.accuracy = 5, reading.timestamp = 1\<rparr>]\<rparr>)) \<noteq> 0"
  by (simp add: getMultipleReadings_def average_def toReading_def positionOf_def samplesTaken_def queries_def Let_def)

text \<open>
  C5. When the platform answers a query of the run with an error, the earlier ones having
  been answered with positions, the promise is rejected with that very error, no average
  is made of the earlier readings, and no query follows the failed one: the queries made
  are the successful ones and the failed one.
\<close>

theorem failure_propagates:
  assumes "geolocation nav \<noteq> None"
    and "ps = [] \<or> real (length ps) < withDefault 3 count"
  shows "\<exists>effects.
           getMultipleReadings ar nav now count interval (map Success ps @ Failure e # rest) =
             (Rejected (PositionError e), effects) \<and>
           queries effects = length ps + 1"
proof -
  have "ps = [] \<or> real (0 + length ps) < withDefault 3 count"
    using assms(2) by simp
  from getReading_failure [OF this, where interval = "withDefault 2000 interval" and now = now
      and rs = "[]" and e = e and rest = rest and ar = ar]
  show ?thesis
    using assms(1) by (simp add: getMultipleReadings_def)
qed

theorem failure_propagates_witness:
  "geolocation \<lparr>geolocation = Some \<lparr>watches = [], lastId = 0, calls = []\<rparr>\<rparr> \<noteq> None \<and>
   real (length [(positionOf \<lparr>lat = 10, lng = 20, reading.accuracy = 5, reading.timestamp = 1\<rparr>)]) < withDefault 3 (Some 3) \<and>
   (\<exists>effects.
      getMultipleReadings unrounded \<lparr>geolocation = Some \<lparr>watches = [], lastId = 0, calls = []\<rparr>\<rparr> 99 (Some 3) None
          [Success (positionOf \<lparr>lat = 10, lng = 20, reading.accuracy = 5, reading.timestamp = 1\<rparr>),
           Failure \<lparr>code = 3, message = ''Timeout expired''\<rparr>,
           Success (positionOf \<lparr>lat = 14, lng = 24, reading.accuracy = 6, reading.timestamp = 3\<rparr>)] =
        (Rejected (PositionError \<lparr>code = 3, message = ''Timeout expired''\<rparr>), effects) \<and>
      queries effects = Suc (Suc 0))"
  using failure_propagates [where nav = "\<lparr>geolocation = Some \<lparr>watches = [], lastId = 0, calls = []\<rparr>\<rparr>"
      and ps = "[(positionOf \<lparr>lat = 10, lng = 20, reading.accuracy = 5, reading.timestamp = 1\<rparr>)]"
      and count = "Some 3" and ar = unrounded and now = 99 and interval = None
      and e = "\<lparr>code = 3, message = ''Timeout expired''\<rparr>"
      and rest = "[Success (positionOf \<lparr>lat = 14, lng = 24, reading.accuracy = 6, reading.timestamp = 3\<rparr>)]"]
  by simp

text \<open>
  C10. With a count of zero or less exactly one query is made whatever the platform
  answers, and when the answer is a position the promise resolves with that position's
  latitude, longitude and accuracy and with that one reading.
\<close>

theorem nonpositive_count:
  assumes "geolocation nav \<noteq> None" and "count \<le> 0"
  shows "snd (getMultipleReadings ar nav now (Some count) interval answers) = [GetCurrentPosition oneShotOptions] \<and>
         queries (snd (getMultipleReadings ar nav now (Some count) interval answers)) = 1 \<and>
         (answers = Success p # rest \<longrightarrow>
            fst (getMultipleReadings ar nav now (Some count) interval answers) =
              Resolved
                \<lparr> lat = latitude (position.coords p),
                  lng = longitude (position.coords p),
                  reading.accuracy = coords.accuracy (position.coords p),
                  reading.timestamp = now,
                  readings = [toReading p] \<rparr>)"
proof -
  have one: "count \<le> real (0 + 1)"
    using assms(2) by simp
  have effects: "snd (getMultipleReadings ar nav now (Some count) interval answers) = [GetCurrentPosition oneShotOptions]"
  proof (cases answers)
    case Nil
    then show ?thesis using assms(1) by (simp add: getMultipleReadings_def)
  next
    case (Cons a as)
    then show ?thesis
      using assms(1) one by (cases a) (simp_all add: getMultipleReadings_def Let_def)
  qed
  have resolved: "answers = Success p # rest \<longrightarrow>
      fst (getMultipleReadings ar nav now (Some count) interval answers) =
        Resolved
          \<lparr> lat = latitude (position.coords p),
            lng = longitude (position.coords p),
            reading.accuracy = coords.accuracy (position.coords p),
            reading.timestamp = now,
            readings = [toReading p] \<rparr>"
  proof
    assume "answers = Success p # rest"
    moreover have "getMultipleReadings ar nav now (Some count) interval answers =
        getReading ar count (withDefault 2000 interval) now [] 0 answers"
      using assms(1) by (auto simp: getMultipleReadings_def)
    ultimately show "fst (getMultipleReadings ar nav now (Some count) interval answers) =
        Resolved
          \<lparr> lat = latitude (position.coords p),
            lng = longitude (position.coords p),
            reading.accuracy = coords.accuracy (position.coords p),
            reading.timestamp = now,
            readings = [toReading p] \<rparr>"
      using one by (simp add: Let_def average_def toReading_def)
  qed
  show ?thesis
    using effects resolved by (simp add: queries_def)
qed

theorem nonpositive_count_witness:
  "geolocation \<lparr>geolocation = Some \<lparr>watches = [], lastId = 0, calls = []\<rparr>\<rparr> \<noteq> None \<and> (-2::real) \<le> 0 \<and>
   getMultipleReadings unrounded \<lparr>geolocation = Some \<lparr>watches = [], lastId = 0, calls = []\<rparr>\<rparr> 99 (Some (-2)) None
       [Success (positionOf \<lparr>lat = 10, lng = 20, reading.accuracy = 5, reading.timestamp = 1\<rparr>),
        Success (positionOf \<lparr>lat = 12, lng = 22, reading.accuracy = 7, reading.timestamp = 2\<rparr>)] =
     (Resolved
        \<lparr>lat = 10, lng = 20, reading.accuracy = 5, reading.timestamp = 99,
           readings = [\<lparr>lat = 10, lng = 20, reading.accuracy = 5, reading.timestamp = 1\<rparr>]\<rparr>,
      [GetCurrentPosition oneShotOptions])"
  using nonpositive_count [where nav = "\<lparr>geolocation = Some \<lparr>watches = [], lastId = 0, calls = []\<rparr>\<rparr>"
      and count = "-2" and ar = unrounded and now = 99 and interval = None
      and answers = "[Success (positionOf \<lparr>lat = 10, lng = 20, reading.accuracy = 5, reading.timestamp = 1\<rparr>),
                      Success (positionOf \<lparr>lat = 12, lng = 22, reading.accuracy = 7, reading.timestamp = 2\<rparr>)]"
      and p = "(positionOf \<lparr>lat = 10, lng = 20, reading.accuracy = 5, reading.timestamp = 1\<rparr>)"
      and rest = "[Success (positionOf \<lparr>lat = 12, lng = 22, reading.accuracy = 7, reading.timestamp = 2\<rparr>)]"]
  by (simp add: prod_eq_iff positionOf_def toReading_def)

end
